theory Spec2Isabelle
  imports Complex_Main
begin

section \<open>Numbers and exceptions of the Python source\<close>

text \<open>
  The development embeds \<^verbatim>\<open>assemble\<close> of \<^verbatim>\<open>src/xarray_behave/xarray_behave.py\<close>.
  Python and NumPy floats are modelled as exact reals (rounding is not modelled); an
  array cell that may hold NaN is a \<open>real option\<close> with \<open>None\<close> for NaN. Integer
  arrays are lists of \<open>int\<close>; a value of dtype \<^verbatim>\<open>uintp\<close> is an \<open>int\<close> in
  \<open>[0, 2^64)\<close>. Every statement of the source that can raise is a branch returning
  \<open>Inl\<close> of the exception.
\<close>

datatype py_error =
    LoadError | ZeroDivisionError | ValueError | KeyError | NameError | IndexError

text \<open>\<^verbatim>\<open>int(x)\<close> on a float: truncation towards zero.\<close>

definition py_int :: "real \<Rightarrow> int" where
  "py_int x = (if 0 \<le> x then \<lfloor>x\<rfloor> else \<lceil>x\<rceil>)"

text \<open>
  \<^verbatim>\<open>x.astype(np.uintp)\<close> on a finite float: truncation, read modulo \<open>2^64\<close>.
  The conversion of NaN is undefined in C; its result on the machine at hand is the
  parameter \<open>nan\<close> (\<open>2^63\<close> with the SSE2 conversion of x86-64, \<open>0\<close> on AArch64).
\<close>

definition astype_uintp :: "real \<Rightarrow> int" where
  "astype_uintp x = py_int x mod 2 ^ 64"

definition nan_astype_uintp :: "int \<Rightarrow> real option \<Rightarrow> int" where
  "nan_astype_uintp nan v = (case v of None \<Rightarrow> nan | Some x \<Rightarrow> astype_uintp x)"

section \<open>The canonical grid (lines 119 to 128)\<close>

text \<open>
  The \<^verbatim>\<open>SampStamp\<close> object \<^verbatim>\<open>ss\<close> returned by \<^verbatim>\<open>ld.load_times\<close> comes from an
  external package; its three methods used by \<^verbatim>\<open>assemble\<close> are taken as functions.
\<close>

record samplestamps =
  ss_sample :: "int \<Rightarrow> real"
  ss_frame :: "int \<Rightarrow> real"
  ss_frame_time :: "int \<Rightarrow> real"

text \<open>
  Line 119: \<^verbatim>\<open>np.min((last_sample_number, ss.sample(frame=last_tracked_frame - 1))).astype(np.intp)\<close>.
\<close>

definition last_sample_with_frame :: "samplestamps \<Rightarrow> int \<Rightarrow> int \<Rightarrow> int" where
  "last_sample_with_frame ss last_sample_number last_tracked_frame =
     py_int (min (of_int last_sample_number) (ss_sample ss (last_tracked_frame - 1)))"

text \<open>Line 120: \<^verbatim>\<open>first_sample = 0\<close>.\<close>

definition first_sample :: int where
  "first_sample = 0"

text \<open>
  Line 123: \<^verbatim>\<open>step = int(sampling_rate / target_sampling_rate)\<close>. With a target
  rate of zero the statement raises (the division on Python numbers, \<^verbatim>\<open>int(inf)\<close> on
  NumPy floats); the model reports ZeroDivisionError.
\<close>

definition compute_step :: "real \<Rightarrow> real \<Rightarrow> py_error + int" where
  "compute_step sampling_rate target_sampling_rate =
     (if target_sampling_rate = 0 then Inl ZeroDivisionError
      else Inr (py_int (sampling_rate / target_sampling_rate)))"

text \<open>
  \<^verbatim>\<open>np.arange(start, stop, step)\<close> on Python integers: \<open>ceil((stop - start) / step)\<close>
  elements (none when that is negative), and ZeroDivisionError for a zero step.
  With \<open>start = 0\<close> and a positive step every element is non-negative, so that
  \<^verbatim>\<open>dtype=np.uintp\<close> keeps the values.
\<close>

definition np_arange :: "int \<Rightarrow> int \<Rightarrow> int \<Rightarrow> py_error + int list" where
  "np_arange start stop stp =
     (if stp = 0 then Inl ZeroDivisionError
      else Inr (map (\<lambda>i. start + int i * stp)
                  [0 ..< nat \<lceil>(of_int (stop - start) :: real) / of_int stp\<rceil>]))"

text \<open>Line 125: \<^verbatim>\<open>target_samples = np.arange(first_sample, last_sample, step, dtype=np.uintp)\<close>.\<close>

definition target_samples :: "int \<Rightarrow> int \<Rightarrow> py_error + int list" where
  "target_samples last_sample stp = np_arange first_sample last_sample stp"

text \<open>Line 126: \<^verbatim>\<open>time = target_samples / sampling_rate\<close>.\<close>

definition grid_time :: "int list \<Rightarrow> real \<Rightarrow> real list" where
  "grid_time ts sampling_rate = map (\<lambda>s. of_int s / sampling_rate) ts"

text \<open>Line 128: \<^verbatim>\<open>sampletime = np.arange(first_sample, last_sample) / sampling_rate\<close>.\<close>

definition sampletime :: "int \<Rightarrow> real \<Rightarrow> real list" where
  "sampletime last_sample sampling_rate =
     map (\<lambda>s. of_int s / sampling_rate) [first_sample .. last_sample - 1]"

text \<open>
  The step as the specification words it, \<open>max(1, round(sampling_rate / target_sampling_rate))\<close>,
  with the rounding of Python 3 (half to even), for comparison with \<open>compute_step\<close>.
\<close>

definition py_round :: "real \<Rightarrow> int" where
  "py_round x =
     (if x - of_int \<lfloor>x\<rfloor> < 1 / 2 then \<lfloor>x\<rfloor>
      else if 1 / 2 < x - of_int \<lfloor>x\<rfloor> then \<lfloor>x\<rfloor> + 1
      else if even \<lfloor>x\<rfloor> then \<lfloor>x\<rfloor> else \<lfloor>x\<rfloor> + 1)"

definition spec_step :: "real \<Rightarrow> real \<Rightarrow> int" where
  "spec_step sampling_rate target_sampling_rate =
     max 1 (py_round (sampling_rate / target_sampling_rate))"

text \<open>
  The upper bound as the specification words it, \<open>min(last_sample_of_daq, sample_at(last_tracked_frame))\<close>.
\<close>

definition spec_last_sample :: "samplestamps \<Rightarrow> int \<Rightarrow> int \<Rightarrow> real" where
  "spec_last_sample ss last_sample_number last_tracked_frame =
     min (of_int last_sample_number) (ss_sample ss last_tracked_frame)"

section \<open>Interpolation (\<^verbatim>\<open>scipy.interpolate.interp1d\<close>)\<close>

text \<open>
  What differs between machines and library versions is a parameter of the model: the
  integer a NaN becomes under \<^verbatim>\<open>astype(np.uintp)\<close>, and the least number of points
  \<^verbatim>\<open>interp1d\<close> accepts (2 in older SciPy, 1 in newer; an empty table is always refused).
\<close>

record platform =
  nan_as_uintp :: int
  interp1d_minval :: nat

text \<open>
  The constructor \<^verbatim>\<open>interp1d(x, y, axis=0, bounds_error=False, fill_value=np.nan)\<close>:
  ValueError when \<open>x\<close> and \<open>y\<close> differ in length or are too short; otherwise the points
  sorted by \<open>x\<close> with a stable sort.
\<close>

definition interp1d :: "platform \<Rightarrow> real list \<Rightarrow> 'a list \<Rightarrow> py_error + (real \<times> 'a) list" where
  "interp1d pf xs ys =
     (if length xs \<noteq> length ys \<or> length xs < interp1d_minval pf \<or> xs = []
      then Inl ValueError
      else Inr (sort_key fst (zip xs ys)))"

text \<open>
  Evaluation with \<^verbatim>\<open>kind='nearest'\<close>: the index is the number of midpoints of
  neighbouring \<open>x\<close> below the argument (\<^verbatim>\<open>searchsorted(x_bds, x_new, side='left')\<close>),
  clipped to the table; outside \<open>[x[0], x[-1]]\<close> the result is the fill value NaN.
\<close>

definition x_bds :: "real list \<Rightarrow> real list" where
  "x_bds xs = map (\<lambda>(a, b). a / 2 + b / 2) (zip (tl xs) (butlast xs))"

definition call_nearest :: "(real \<times> real) list \<Rightarrow> real \<Rightarrow> real option" where
  "call_nearest tab x_new =
     (if x_new < fst (hd tab) \<or> fst (last tab) < x_new then None
      else Some (snd (tab ! min (length (filter (\<lambda>b. b < x_new) (x_bds (map fst tab))))
                                (length tab - 1))))"

text \<open>
  Evaluation with \<^verbatim>\<open>kind='linear'\<close> on rows of cells: the upper neighbour is
  \<^verbatim>\<open>searchsorted(x, x_new).clip(1, len(x) - 1)\<close>, the lower one the row before it, and
  each cell is \<open>slope * (x_new - x_lo) + y_lo\<close>, NaN as soon as a neighbour is NaN or
  the slope divides by zero. Outside \<open>[x[0], x[-1]]\<close> the row is all NaN.
\<close>

definition lin_cell :: "real \<Rightarrow> real \<Rightarrow> real \<Rightarrow> real option \<Rightarrow> real option \<Rightarrow> real option" where
  "lin_cell x_new x_lo x_hi y_lo y_hi =
     (case (y_lo, y_hi) of
        (Some a, Some b) \<Rightarrow>
          if x_hi = x_lo then None
          else Some ((b - a) / (x_hi - x_lo) * (x_new - x_lo) + a)
      | _ \<Rightarrow> None)"

definition call_linear :: "(real \<times> real option list) list \<Rightarrow> real \<Rightarrow> real option list" where
  "call_linear tab x_new =
     (if x_new < fst (hd tab) \<or> fst (last tab) < x_new
      then replicate (length (snd (hd tab))) None
      else
        let hi = min (max (length (filter (\<lambda>a. a < x_new) (map fst tab))) 1) (length tab - 1);
            lo = hi - 1
        in map (\<lambda>(y_lo, y_hi). lin_cell x_new (fst (tab ! lo)) (fst (tab ! hi)) y_lo y_hi)
             (zip (snd (tab ! lo)) (snd (tab ! hi))))"

text \<open>
  Lines 131 to 135: the frames \<^verbatim>\<open>np.arange(first_tracked_frame, last_tracked_frame)\<close>,
  their samples, the nearest-frame interpolator evaluated on the grid, and the cast
  \<^verbatim>\<open>.astype(np.uintp)\<close>.
\<close>

definition frame_numbers :: "int \<Rightarrow> int \<Rightarrow> int list" where
  "frame_numbers first_tracked last_tracked = [first_tracked .. last_tracked - 1]"

definition nearest_frame_float ::
  "platform \<Rightarrow> samplestamps \<Rightarrow> int \<Rightarrow> int \<Rightarrow> int list \<Rightarrow> py_error + real option list" where
  "nearest_frame_float pf ss first_tracked last_tracked ts =
     (case interp1d pf (map (ss_sample ss) (frame_numbers first_tracked last_tracked))
             (map real_of_int (frame_numbers first_tracked last_tracked)) of
        Inl e \<Rightarrow> Inl e
      | Inr tab \<Rightarrow> Inr (map (\<lambda>s. call_nearest tab (of_int s)) ts))"

definition nearest_frame_time ::
  "platform \<Rightarrow> samplestamps \<Rightarrow> int \<Rightarrow> int \<Rightarrow> int list \<Rightarrow> py_error + int list" where
  "nearest_frame_time pf ss first_tracked last_tracked ts =
     (case nearest_frame_float pf ss first_tracked last_tracked ts of
        Inl e \<Rightarrow> Inl e
      | Inr vs \<Rightarrow> Inr (map (nan_astype_uintp (nan_as_uintp pf)) vs))"

text \<open>
  Lines 201 to 206 and 232 to 241: positions of the frames \<open>[first, last)\<close> resampled
  linearly onto the grid.
\<close>

definition resample_positions ::
  "platform \<Rightarrow> samplestamps \<Rightarrow> int \<Rightarrow> int \<Rightarrow> real option list list \<Rightarrow> int list
     \<Rightarrow> py_error + real option list list" where
  "resample_positions pf ss first_frame last_frame pos ts =
     (case interp1d pf (map (ss_sample ss) (frame_numbers first_frame last_frame)) pos of
        Inl e \<Rightarrow> Inl e
      | Inr tab \<Rightarrow> Inr (map (\<lambda>s. call_linear tab (of_int s)) ts))"

section \<open>Song events (lines 159 to 183)\<close>

text \<open>
  A manual annotation is an array of seconds per event type: one column for point
  events, two columns (\<^verbatim>\<open>val.shape[1] == 2\<close>) for segments with onset and offset.
\<close>

datatype manual_events = Points "real list" | Segments "(real \<times> real) list"

text \<open>
  Lines 160 to 166: seconds to samples by \<^verbatim>\<open>(val * sampling_rate).astype(np.uintp)\<close>;
  a segment becomes \<^verbatim>\<open>np.arange(t0, t1+1)\<close>, and \<^verbatim>\<open>np.concatenate\<close> of the
  ranges raises ValueError when there is no segment at all.
\<close>

definition segment_mask :: "(int \<times> int) list \<Rightarrow> py_error + int list" where
  "segment_mask val =
     (if val = [] then Inl ValueError else Inr (concat (map (\<lambda>(t0, t1). [t0 .. t1]) val)))"

definition manual_events_samples :: "real \<Rightarrow> manual_events \<Rightarrow> py_error + int list" where
  "manual_events_samples sampling_rate val =
     (case val of
        Points ts \<Rightarrow> Inr (map (\<lambda>t. astype_uintp (t * sampling_rate)) ts)
      | Segments ps \<Rightarrow>
          segment_mask (map (\<lambda>(t0, t1). (astype_uintp (t0 * sampling_rate),
                                          astype_uintp (t1 * sampling_rate))) ps))"

fun manual_events_dict ::
  "real \<Rightarrow> (string \<times> manual_events) list \<Rightarrow> py_error + (string \<times> int list) list" where
  "manual_events_dict sampling_rate [] = Inr []"
| "manual_events_dict sampling_rate ((key, val) # rest) =
     (case manual_events_samples sampling_rate val of
        Inl e \<Rightarrow> Inl e
      | Inr samples \<Rightarrow>
          (case manual_events_dict sampling_rate rest of
             Inl e \<Rightarrow> Inl e
           | Inr evs \<Rightarrow> Inr ((key, samples) # evs)))"

text \<open>
  The dictionary \<^verbatim>\<open>res\<close> of the automatic segmentation and the raw recording, with the
  keys \<^verbatim>\<open>assemble\<close> reads; a key that is absent is \<open>None\<close>. \<^verbatim>\<open>res['song']\<close> is
  represented by its column 0, the only one read.
\<close>

record res =
  res_song :: "real list option"
  res_song_raw :: "real list list option"
  res_pulse_times_samples :: "int list option"
  res_pulse_labels :: "int list option"

text \<open>
  Lines 171 to 175, run when the automatic segmentation was loaded: three entries are
  read from \<^verbatim>\<open>res\<close>, then \<^verbatim>\<open>np.where(song_labels == 2)\<close> names \<^verbatim>\<open>song_labels\<close>,
  which is bound nowhere in the function or the module.
\<close>

definition segmentation_events ::
  "res \<Rightarrow> (string \<times> int list) list \<Rightarrow> py_error + (string \<times> int list) list" where
  "segmentation_events r events =
     (case res_pulse_times_samples r of
        None \<Rightarrow> Inl KeyError
      | Some pulse_times \<Rightarrow>
          (case res_pulse_labels r of
             None \<Rightarrow> Inl KeyError
           | Some pulse_labels \<Rightarrow>
               if length pulse_labels \<noteq> length pulse_times then Inl IndexError
               else Inl NameError))"

text \<open>
  Lines 181 and 182: \<^verbatim>\<open>np.unique((events[key] / step).astype(np.uintp))\<close>, then the
  entries below \<^verbatim>\<open>last_sample_with_frame / step\<close>. The quotient here is the exact
  one. Line 181 divides in float64, which converts a sample below \<open>2^53\<close> without
  rounding and then truncates to the same integer; for a sample of \<open>2^53\<close> or more the
  conversion rounds, and the bin the code computes is not described by this definition.
\<close>

definition event_times :: "int \<Rightarrow> int \<Rightarrow> int list \<Rightarrow> int list" where
  "event_times stp lswf ev =
     filter (\<lambda>e. real_of_int e < real_of_int lswf / real_of_int stp)
       (sort (remdups (map (\<lambda>s. astype_uintp (real_of_int s / real_of_int stp)) ev)))"

text \<open>
  Line 183: \<^verbatim>\<open>song_events_np[event_times, cnt] = True\<close>; an index outside the rows
  raises IndexError.
\<close>

fun write_true :: "bool list list \<Rightarrow> int list \<Rightarrow> nat \<Rightarrow> py_error + bool list list" where
  "write_true m [] cnt = Inr m"
| "write_true m (e # es) cnt =
     (if nat e < length m then write_true (m[nat e := (m ! nat e)[cnt := True]]) es cnt
      else Inl IndexError)"

text \<open>Lines 179 to 183: the zero matrix and the loop over the event types.\<close>

fun fill_events ::
  "int \<Rightarrow> int \<Rightarrow> bool list list \<Rightarrow> nat \<Rightarrow> (string \<times> int list) list
     \<Rightarrow> py_error + bool list list" where
  "fill_events stp lswf m cnt [] = Inr m"
| "fill_events stp lswf m cnt ((key, ev) # rest) =
     (case write_true m (event_times stp lswf ev) cnt of
        Inl e \<Rightarrow> Inl e
      | Inr m' \<Rightarrow> fill_events stp lswf m' (Suc cnt) rest)"

definition song_events_np ::
  "nat \<Rightarrow> int \<Rightarrow> int \<Rightarrow> (string \<times> int list) list \<Rightarrow> py_error + bool list list" where
  "song_events_np n stp lswf events =
     fill_events stp lswf (replicate n (replicate (length events) False)) 0 events"

text \<open>Column \<open>cnt\<close> of a matrix stored by rows.\<close>

definition column :: "nat \<Rightarrow> bool list list \<Rightarrow> bool list" where
  "column cnt m = map (\<lambda>row. row ! cnt) m"

section \<open>The loaders and the dataset\<close>

text \<open>
  The module \<^verbatim>\<open>loaders\<close> is not part of the sources at hand. What each loader
  returns is an input of the model: \<open>None\<close> is a loader that raised (every optional
  loader is called under \<^verbatim>\<open>except Exception\<close>), while \<^verbatim>\<open>ld.load_times\<close> is called
  unprotected, so that its exception leaves \<^verbatim>\<open>assemble\<close>. Positions are rows of
  cells, one row per frame. Labels of body parts, attributes and the background image
  are metadata no statement below reads; they are left out.
\<close>

record tracks =
  body_pos :: "real option list list"
  first_tracked_frame :: int
  last_tracked_frame :: int

record poses =
  pose_pos :: "real option list list"
  pose_pos_allo :: "real option list list"
  first_pose_frame :: int
  last_pose_frame :: int

record inputs =
  load_times :: "py_error + (samplestamps \<times> int \<times> real)"
  load_tracks_fixed :: "tracks option"
  load_tracks_nonfixed :: "tracks option"
  load_poses_deepposekit :: "poses option"
  load_poses_leap :: "poses option"
  load_segmentation :: "res option"
  load_raw_song :: "real list list option"
  merge_channels :: "real list list \<Rightarrow> real \<Rightarrow> real list option"
  load_manual_annotation :: "(string \<times> manual_events) list option"
  target_sampling_rate :: real
  keep_multi_channel :: bool
  resample_video_data :: bool

text \<open>
  The arrays of the dataset with their coordinates. \<^verbatim>\<open>xr.DataArray\<close> raises
  ValueError when a coordinate and the data differ in length along the dimension.
  The record \<open>dataset\<close> is the dictionary \<^verbatim>\<open>dataset_data\<close> handed to \<^verbatim>\<open>xr.Dataset\<close>.
  With \<^verbatim>\<open>resample_video_data\<close> on, all its arrays carry the same \<^verbatim>\<open>time\<close> and
  \<^verbatim>\<open>nearest_frame\<close>, which are then the coordinates of the dataset; how \<^verbatim>\<open>xr.Dataset\<close>
  merges arrays whose coordinates differ is not modelled.
\<close>

record song_array =
  song_sampletime :: "real list"
  song_data :: "real list"

record song_raw_array =
  raw_sampletime :: "real list"
  raw_data :: "real list list"

record events_array =
  ev_time :: "real list"
  ev_event_types :: "string list"
  ev_nearest_frame :: "int list"
  ev_data :: "bool list list"

record positions_array =
  pos_time :: "real list"
  pos_nearest_frame :: "int list"
  pos_data :: "real option list list"

record dataset =
  song :: "song_array option"
  song_raw :: "song_raw_array option"
  song_events :: "events_array option"
  body_positions :: "positions_array option"
  pose_positions :: "positions_array option"
  pose_positions_allo :: "positions_array option"

definition song_DataArray :: "real list \<Rightarrow> real list \<Rightarrow> py_error + song_array" where
  "song_DataArray data st =
     (if length data \<noteq> length st then Inl ValueError
      else Inr \<lparr>song_sampletime = st, song_data = data\<rparr>)"

definition song_raw_DataArray :: "real list list \<Rightarrow> real list \<Rightarrow> py_error + song_raw_array" where
  "song_raw_DataArray data st =
     (if length data \<noteq> length st then Inl ValueError
      else Inr \<lparr>raw_sampletime = st, raw_data = data\<rparr>)"

definition events_DataArray ::
  "bool list list \<Rightarrow> real list \<Rightarrow> string list \<Rightarrow> int list \<Rightarrow> py_error + events_array" where
  "events_DataArray data time eventtypes nearest =
     (if length data \<noteq> length time \<or> length nearest \<noteq> length time then Inl ValueError
      else Inr \<lparr>ev_time = time, ev_event_types = eventtypes, ev_nearest_frame = nearest,
                ev_data = data\<rparr>)"

definition positions_DataArray ::
  "real option list list \<Rightarrow> real list \<Rightarrow> int list \<Rightarrow> py_error + positions_array" where
  "positions_DataArray data time nearest =
     (if length data \<noteq> length time \<or> length nearest \<noteq> length time then Inl ValueError
      else Inr \<lparr>pos_time = time, pos_nearest_frame = nearest, pos_data = data\<rparr>)"

text \<open>The slice \<^verbatim>\<open>a[start:stop]\<close> of Python, negative bounds counting from the end.\<close>

definition slice_bound :: "nat \<Rightarrow> int \<Rightarrow> nat" where
  "slice_bound n i = (if i < 0 then nat (int n + i) else min (nat i) n)"

definition py_slice :: "int \<Rightarrow> int \<Rightarrow> 'a list \<Rightarrow> 'a list" where
  "py_slice start stop xs =
     drop (slice_bound (length xs) start) (take (slice_bound (length xs) stop) xs)"

section \<open>\<^verbatim>\<open>assemble\<close>, block by block\<close>

text \<open>
  Lines 36 to 56: the fixed tracks, else the non-fixed ones, else the frames of the
  first and last sample. The result is the tracks when loaded, \<^verbatim>\<open>with_fixed_tracks\<close>,
  and the first and last tracked frame.
\<close>

definition tracks_block ::
  "inputs \<Rightarrow> samplestamps \<Rightarrow> int \<Rightarrow> tracks option \<times> bool \<times> int \<times> int" where
  "tracks_block inp ss last_sample_number =
     (case load_tracks_fixed inp of
        Some t \<Rightarrow> (Some t, True, first_tracked_frame t, last_tracked_frame t)
      | None \<Rightarrow>
          (case load_tracks_nonfixed inp of
             Some t \<Rightarrow> (Some t, False, first_tracked_frame t, last_tracked_frame t)
           | None \<Rightarrow> (None, False, py_int (ss_frame ss 0),
                       py_int (ss_frame ss last_sample_number))))"

text \<open>Lines 59 to 79: the poses of DeepPoseKit, else those of LEAP.\<close>

definition poses_block :: "inputs \<Rightarrow> poses option" where
  "poses_block inp =
     (case load_poses_deepposekit inp of
        Some p \<Rightarrow> Some p
      | None \<Rightarrow> load_poses_leap inp)"

text \<open>
  Lines 82 to 107: the automatic segmentation, then the raw recording when there is
  no song yet or all channels are kept. The result is \<^verbatim>\<open>with_segmentation\<close>,
  \<^verbatim>\<open>with_song\<close> and \<^verbatim>\<open>res\<close>. An exception inside the \<^verbatim>\<open>try\<close> leaves \<^verbatim>\<open>res\<close> as it
  was before the statement that raised.
\<close>

definition empty_res :: res where
  "empty_res = \<lparr>res_song = None, res_song_raw = None, res_pulse_times_samples = None,
                 res_pulse_labels = None\<rparr>"

definition raw_song_block :: "inputs \<Rightarrow> real \<Rightarrow> bool \<Rightarrow> res \<Rightarrow> bool \<times> res" where
  "raw_song_block inp sampling_rate with_song r =
     (if \<not> with_song \<or> keep_multi_channel inp then
        (case load_raw_song inp of
           None \<Rightarrow> (with_song, r)
         | Some raw \<Rightarrow>
             if \<not> with_song then
               (case merge_channels inp raw sampling_rate of
                  None \<Rightarrow> (with_song, r)
                | Some merged \<Rightarrow>
                    (True, if keep_multi_channel inp
                           then r\<lparr>res_song := Some merged, res_song_raw := Some raw\<rparr>
                           else r\<lparr>res_song := Some merged\<rparr>))
             else (True, if keep_multi_channel inp then r\<lparr>res_song_raw := Some raw\<rparr> else r))
      else (with_song, r))"

definition song_block :: "inputs \<Rightarrow> real \<Rightarrow> bool \<times> bool \<times> res" where
  "song_block inp sampling_rate =
     (case load_segmentation inp of
        Some r \<Rightarrow> (True, raw_song_block inp sampling_rate True r)
      | None \<Rightarrow> (False, raw_song_block inp sampling_rate False empty_res))"

text \<open>
  Lines 138 to 156: the arrays \<^verbatim>\<open>song\<close> and \<^verbatim>\<open>song_raw\<close>, cut to
  \<^verbatim>\<open>[first_sample:last_sample]\<close>.
\<close>

definition song_arrays ::
  "inputs \<Rightarrow> bool \<Rightarrow> res \<Rightarrow> int \<Rightarrow> real list
     \<Rightarrow> py_error + (song_array option \<times> song_raw_array option)" where
  "song_arrays inp with_song r last_sample st =
     (if with_song then
        (case res_song r of
           None \<Rightarrow> Inl KeyError
         | Some s \<Rightarrow>
             (case song_DataArray (py_slice first_sample last_sample s) st of
                Inl e \<Rightarrow> Inl e
              | Inr a \<Rightarrow>
                  if keep_multi_channel inp then
                    (case res_song_raw r of
                       None \<Rightarrow> Inl KeyError
                     | Some raw \<Rightarrow>
                         (case song_raw_DataArray (py_slice first_sample last_sample raw) st of
                            Inl e \<Rightarrow> Inl e
                          | Inr b \<Rightarrow> Inr (Some a, Some b)))
                  else Inr (Some a, None)))
      else Inr (None, None))"

text \<open>
  Lines 159 to 193: the events of the manual annotation, those of the automatic
  segmentation, and the array \<^verbatim>\<open>song_events\<close>.
\<close>

definition events_block ::
  "inputs \<Rightarrow> bool \<Rightarrow> res \<Rightarrow> real \<Rightarrow> int \<Rightarrow> int \<Rightarrow> real list \<Rightarrow> int list
     \<Rightarrow> py_error + events_array option" where
  "events_block inp with_segmentation r sampling_rate stp lswf time nearest =
     (case (case load_manual_annotation inp of
              Some manual \<Rightarrow> manual_events_dict sampling_rate manual
            | None \<Rightarrow> Inr []) of
        Inl e \<Rightarrow> Inl e
      | Inr events0 \<Rightarrow>
          (case (if with_segmentation then segmentation_events r events0 else Inr events0) of
             Inl e \<Rightarrow> Inl e
           | Inr events \<Rightarrow>
               if load_manual_annotation inp \<noteq> None \<or> with_segmentation then
                 (case song_events_np (length time) stp lswf events of
                    Inl e \<Rightarrow> Inl e
                  | Inr m \<Rightarrow>
                      (case events_DataArray m time (map fst events) nearest of
                         Inl e \<Rightarrow> Inl e
                       | Inr a \<Rightarrow> Inr (Some a)))
               else Inr None))"

text \<open>
  Lines 196 to 224: the body positions, resampled onto the grid or at the frames. The
  block also returns \<^verbatim>\<open>time\<close> and \<^verbatim>\<open>nearest_frame_time\<close>, which it rebinds when
  \<^verbatim>\<open>resample_video_data\<close> is off.
\<close>

definition body_block ::
  "platform \<Rightarrow> inputs \<Rightarrow> samplestamps \<Rightarrow> tracks option \<Rightarrow> int list \<Rightarrow> real list \<Rightarrow> int list
     \<Rightarrow> py_error + (positions_array option \<times> real list \<times> int list)" where
  "body_block pf inp ss trk ts time nearest =
     (case trk of
        None \<Rightarrow> Inr (None, time, nearest)
      | Some t \<Rightarrow>
          if resample_video_data inp then
            (case resample_positions pf ss (first_tracked_frame t) (last_tracked_frame t)
                    (body_pos t) ts of
               Inl e \<Rightarrow> Inl e
             | Inr data \<Rightarrow>
                 (case positions_DataArray data time nearest of
                    Inl e \<Rightarrow> Inl e
                  | Inr a \<Rightarrow> Inr (Some a, time, nearest)))
          else
            (let frames = frame_numbers (first_tracked_frame t) (last_tracked_frame t);
                 frame_times = map (ss_frame_time ss) frames
             in case positions_DataArray (body_pos t) frame_times frames of
                  Inl e \<Rightarrow> Inl e
                | Inr a \<Rightarrow> Inr (Some a, frame_times, frames)))"

text \<open>
  Lines 227 to 274: the poses in egocentric and allocentric coordinates. Without
  resampling the coordinates are those of the tracked frames \<open>[first_tracked, last_tracked)\<close>.
\<close>

definition pose_block ::
  "platform \<Rightarrow> inputs \<Rightarrow> samplestamps \<Rightarrow> poses option \<Rightarrow> int \<Rightarrow> int \<Rightarrow> int list \<Rightarrow> real list
     \<Rightarrow> int list \<Rightarrow> py_error + (positions_array option \<times> positions_array option)" where
  "pose_block pf inp ss pss first_tracked last_tracked ts time nearest =
     (case pss of
        None \<Rightarrow> Inr (None, None)
      | Some p \<Rightarrow>
          if resample_video_data inp then
            (case resample_positions pf ss (first_pose_frame p) (last_pose_frame p)
                    (pose_pos p) ts of
               Inl e \<Rightarrow> Inl e
             | Inr ego \<Rightarrow>
                 (case resample_positions pf ss (first_pose_frame p) (last_pose_frame p)
                         (pose_pos_allo p) ts of
                    Inl e \<Rightarrow> Inl e
                  | Inr allo \<Rightarrow>
                      (case positions_DataArray ego time nearest of
                         Inl e \<Rightarrow> Inl e
                       | Inr a \<Rightarrow>
                           (case positions_DataArray allo time nearest of
                              Inl e \<Rightarrow> Inl e
                            | Inr b \<Rightarrow> Inr (Some a, Some b)))))
          else
            (let frames = frame_numbers first_tracked last_tracked;
                 frame_times = map (ss_frame_time ss) frames
             in case positions_DataArray (pose_pos p) frame_times frames of
                  Inl e \<Rightarrow> Inl e
                | Inr a \<Rightarrow>
                    (case positions_DataArray (pose_pos_allo p) frame_times frames of
                       Inl e \<Rightarrow> Inl e
                     | Inr b \<Rightarrow> Inr (Some a, Some b))))"

text \<open>
  The part of \<^verbatim>\<open>assemble\<close> after the loaders (lines 119 to 281), in the order of the
  source, so that the first statement that raises decides the exception.
\<close>

definition assemble_from ::
  "platform \<Rightarrow> inputs \<Rightarrow> samplestamps \<Rightarrow> int \<Rightarrow> real \<Rightarrow> py_error + dataset" where
  "assemble_from pf inp ss last_sample_number sampling_rate =
     (case tracks_block inp ss last_sample_number of
        (trk, with_fixed_tracks, first_tracked, last_tracked) \<Rightarrow>
     (case song_block inp sampling_rate of
        (with_segmentation, with_song, r) \<Rightarrow>
     (let lswf = last_sample_with_frame ss last_sample_number last_tracked;
          last_sample = lswf
      in
     (case compute_step sampling_rate (target_sampling_rate inp) of
        Inl e \<Rightarrow> Inl e
      | Inr stp \<Rightarrow>
     (case target_samples last_sample stp of
        Inl e \<Rightarrow> Inl e
      | Inr ts \<Rightarrow>
     (case nearest_frame_time pf ss first_tracked last_tracked ts of
        Inl e \<Rightarrow> Inl e
      | Inr nearest \<Rightarrow>
     (case song_arrays inp with_song r last_sample (sampletime last_sample sampling_rate) of
        Inl e \<Rightarrow> Inl e
      | Inr (sng, raw) \<Rightarrow>
     (case events_block inp with_segmentation r sampling_rate stp lswf
             (grid_time ts sampling_rate) nearest of
        Inl e \<Rightarrow> Inl e
      | Inr evs \<Rightarrow>
     (case body_block pf inp ss trk ts (grid_time ts sampling_rate) nearest of
        Inl e \<Rightarrow> Inl e
      | Inr (body, time', nearest') \<Rightarrow>
     (case pose_block pf inp ss (poses_block inp) first_tracked last_tracked ts time' nearest' of
        Inl e \<Rightarrow> Inl e
      | Inr (ego, allo) \<Rightarrow>
          Inr \<lparr>song = sng, song_raw = raw, song_events = evs, body_positions = body,
               pose_positions = ego, pose_positions_allo = allo\<rparr>))))))))))"

definition assemble :: "platform \<Rightarrow> inputs \<Rightarrow> py_error + dataset" where
  "assemble pf inp =
     (case load_times inp of
        Inl e \<Rightarrow> Inl e
      | Inr (ss, last_sample_number, sampling_rate) \<Rightarrow>
          assemble_from pf inp ss last_sample_number sampling_rate)"

section \<open>Concrete recordings for the examples\<close>

text \<open>A timing model with one frame every 100 samples, frame 0 at sample 0.\<close>

definition frames_every_100 :: samplestamps where
  "frames_every_100 = \<lparr>ss_sample = (\<lambda>f. 100 * real_of_int f),
     ss_frame = (\<lambda>s. real_of_int s / 100), ss_frame_time = (\<lambda>f. real_of_int f / 10)\<rparr>"

text \<open>
  A recording of 12 samples at 2 Hz with a frame every 2 samples, tracked on the frames
  2 to 5 (\<open>last_tracked_frame = 6\<close>), with a raw recording of two channels and a manual
  annotation, and without poses or automatic segmentation. At a target rate of 1 Hz the
  step is 2 and the grid is \<open>[0, 2, 4, 6, 8]\<close>; the samples 0 and 2 lie before sample 4
  of the first tracked frame.
\<close>

definition frames_every_2 :: samplestamps where
  "frames_every_2 = \<lparr>ss_sample = (\<lambda>f. 2 * real_of_int f),
     ss_frame = (\<lambda>s. real_of_int s / 2), ss_frame_time = (\<lambda>f. real_of_int f)\<rparr>"

text \<open>
  NumPy on x86-64, where the conversion of NaN to \<^verbatim>\<open>uintp\<close> gives \<open>2^63\<close>, with a
  SciPy that wants two points for an interpolator.
\<close>

definition x86_64 :: platform where
  "x86_64 = \<lparr>nan_as_uintp = 2 ^ 63, interp1d_minval = 2\<rparr>"

definition tracked_2_to_6 :: tracks where
  "tracked_2_to_6 = \<lparr>body_pos = [[Some 1, Some 5], [Some 2, Some 6], [Some 3, None], [Some 4, Some 8]],
     first_tracked_frame = 2, last_tracked_frame = 6\<rparr>"

definition recording :: inputs where
  "recording = \<lparr>load_times = Inr (frames_every_2, 12, 2),
     load_tracks_fixed = Some tracked_2_to_6,
     load_tracks_nonfixed = None,
     load_poses_deepposekit = None,
     load_poses_leap = None,
     load_segmentation = None,
     load_raw_song = Some (replicate 12 [0, 1]),
     merge_channels = (\<lambda>raw rate. Some (map (\<lambda>row. foldr max row 0) raw)),
     load_manual_annotation = Some [(''pulse'', Points [11 / 10, 26 / 10]),
                                    (''sine'', Segments [(1 / 2, 2)])],
     target_sampling_rate = 1,
     keep_multi_channel = False,
     resample_video_data = True\<rparr>"

text \<open>What an automatic segmentation of that recording would hold.\<close>

definition segmented :: res where
  "segmented = \<lparr>res_song = Some (replicate 12 1), res_song_raw = None,
     res_pulse_times_samples = Some [3, 7], res_pulse_labels = Some [1, 0]\<rparr>"

section \<open>Properties of the canonical grid\<close>

lemma target_samples_length:
  assumes "target_samples last_sample stp = Inr ts"
  shows "stp \<noteq> 0 \<and> length ts = nat \<lceil>real_of_int last_sample / real_of_int stp\<rceil>"
  using assms by (auto simp: target_samples_def np_arange_def first_sample_def split: if_splits)

lemma target_samples_nth:
  assumes "target_samples last_sample stp = Inr ts" "i < length ts"
  shows "ts ! i = int i * stp"
  using assms by (auto simp: target_samples_def np_arange_def first_sample_def split: if_splits)

lemma target_samples_below:
  assumes "target_samples last_sample stp = Inr ts" "1 \<le> stp" "i < length ts"
  shows "ts ! i < last_sample"
proof -
  have len: "length ts = nat \<lceil>real_of_int last_sample / real_of_int stp\<rceil>"
    using target_samples_length [OF assms(1)] by simp
  have "int i < \<lceil>real_of_int last_sample / real_of_int stp\<rceil>"
    using assms(3) len by linarith
  then have "real_of_int (int i) < real_of_int last_sample / real_of_int stp"
    by (simp add: less_ceiling_iff)
  then have "real_of_int (int i) * real_of_int stp < real_of_int last_sample"
    using assms(2) by (simp add: pos_less_divide_eq)
  then have "int i * stp < last_sample"
    by (metis of_int_less_iff of_int_mult)
  then show ?thesis
    using target_samples_nth [OF assms(1) assms(3)] by simp
qed

lemma py_int_pos_quotient:
  assumes "0 < b" "b \<le> a"
  shows "py_int (a / b) = \<lfloor>a / b\<rfloor> \<and> 1 \<le> py_int (a / b)"
proof -
  have "1 \<le> a / b" using assms by (simp add: pos_le_divide_eq)
  then show ?thesis by (simp add: py_int_def le_floor_iff)
qed

text \<open>
  Claim C1, as the code has it. The step is the quotient of the two rates truncated
  by \<^verbatim>\<open>int\<close>, neither rounded nor raised to 1: for a positive target rate not above
  the sampling rate it is the floor of the quotient and at least 1. Whenever the step
  is at least 1 the grid is \<open>first_sample + i * step\<close> and has
  \<open>ceil((last_sample - first_sample) / step)\<close> points (none when that is negative);
  a quotient below 1 gives step 0, for which \<^verbatim>\<open>np.arange\<close> raises.
\<close>

theorem canonical_grid_truncated_step:
  assumes "target_rate \<noteq> 0"
  shows "compute_step sampling_rate target_rate =
           Inr (py_int (sampling_rate / target_rate))
       \<and> (py_int (sampling_rate / target_rate) = 0 \<longrightarrow>
            target_samples last_sample (py_int (sampling_rate / target_rate))
              = Inl ZeroDivisionError)
       \<and> (0 < target_rate \<and> target_rate \<le> sampling_rate \<longrightarrow>
            py_int (sampling_rate / target_rate)
              = \<lfloor>sampling_rate / target_rate\<rfloor>
          \<and> 1 \<le> py_int (sampling_rate / target_rate))
       \<and> (1 \<le> py_int (sampling_rate / target_rate) \<longrightarrow>
            (\<exists>ts. target_samples last_sample (py_int (sampling_rate / target_rate))
                    = Inr ts
               \<and> length ts = nat \<lceil>real_of_int (last_sample - first_sample)
                                   / real_of_int (py_int (sampling_rate / target_rate))\<rceil>
               \<and> (\<forall>i<length ts. ts ! i = first_sample
                      + int i * py_int (sampling_rate / target_rate))))"
proof (intro conjI impI)
  show "compute_step sampling_rate target_rate =
           Inr (py_int (sampling_rate / target_rate))"
    using assms by (simp add: compute_step_def)
next
  assume "py_int (sampling_rate / target_rate) = 0"
  then show "target_samples last_sample (py_int (sampling_rate / target_rate))
              = Inl ZeroDivisionError"
    by (simp add: target_samples_def np_arange_def)
next
  assume "0 < target_rate \<and> target_rate \<le> sampling_rate"
  then show "py_int (sampling_rate / target_rate)
              = \<lfloor>sampling_rate / target_rate\<rfloor>"
    using py_int_pos_quotient by blast
next
  assume "0 < target_rate \<and> target_rate \<le> sampling_rate"
  then show "1 \<le> py_int (sampling_rate / target_rate)"
    using py_int_pos_quotient by blast
next
  assume pos: "1 \<le> py_int (sampling_rate / target_rate)"
  define stp where "stp = py_int (sampling_rate / target_rate)"
  have "stp \<noteq> 0" using pos stp_def by simp
  then have "target_samples last_sample stp
      = Inr (map (\<lambda>i. first_sample + int i * stp)
               [0 ..< nat \<lceil>real_of_int (last_sample - first_sample) / real_of_int stp\<rceil>])"
    by (simp add: target_samples_def np_arange_def)
  then show "\<exists>ts. target_samples last_sample (py_int (sampling_rate / target_rate))
                    = Inr ts
               \<and> length ts = nat \<lceil>real_of_int (last_sample - first_sample)
                                   / real_of_int (py_int (sampling_rate / target_rate))\<rceil>
               \<and> (\<forall>i<length ts. ts ! i = first_sample
                      + int i * py_int (sampling_rate / target_rate))"
    unfolding stp_def by simp
qed

text \<open>
  The scenario of the specification: 10000 Hz resampled to 1000 Hz over
  \<open>[0, 10000)\<close> has step 10 and 1000 grid points, the last one at sample 9990.
\<close>

theorem canonical_grid_truncated_step_witness:
  "compute_step 10000 1000 = Inr 10
   \<and> (\<exists>ts. target_samples 10000 10 = Inr ts \<and> length ts = 1000 \<and> ts ! 999 = 9990)"
proof -
  have q: "py_int (10000 / 1000) = 10" by (simp add: py_int_def)
  have "(1::int) \<le> 10" by simp
  with canonical_grid_truncated_step [of 1000 10000 10000] q
  obtain ts where ts: "target_samples 10000 10 = Inr ts"
      "length ts = nat \<lceil>real_of_int (10000 - first_sample) / real_of_int 10\<rceil>"
      "\<forall>i<length ts. ts ! i = first_sample + int i * 10"
    by auto
  have len: "length ts = 1000" using ts(2) by (simp add: first_sample_def)
  then have "ts ! 999 = 9990" using ts(3) by (simp add: first_sample_def)
  with canonical_grid_truncated_step [of 1000 10000 10000] q ts(1) len show ?thesis by simp
qed

text \<open>
  Against C1 as stated: at 10000 Hz and a target of 6000 Hz the code's step is 1 where
  \<open>max(1, round(...))\<close> is 2; at 500 Hz and a target of 1000 Hz the code's step is 0
  where the stated one is 1, and the grid construction raises.
\<close>

theorem step_counterexample:
  "compute_step 10000 6000 = Inr 1 \<and> spec_step 10000 6000 = 2
   \<and> compute_step 500 1000 = Inr 0 \<and> spec_step 500 1000 = 1
   \<and> target_samples 10000 0 = Inl ZeroDivisionError"
  by (simp add: compute_step_def spec_step_def py_int_def py_round_def target_samples_def
        np_arange_def)

text \<open>
  Claim C8, as the code has it. The grid's \<^verbatim>\<open>last_sample\<close> is the minimum of the
  DAQ's last sample number and the sample of frame \<open>last_tracked_frame - 1\<close>, the last
  frame of the half-open range \<open>[first_tracked_frame, last_tracked_frame)\<close>, truncated
  to an integer. For non-negative arguments it exceeds neither of the two, and every
  grid point lies strictly below both.
\<close>

theorem last_sample_clamped_before_last_frame:
  assumes "0 \<le> last_sample_number" "0 \<le> ss_sample ss (last_tracked - 1)"
  shows "last_sample_with_frame ss last_sample_number last_tracked
           = \<lfloor>min (real_of_int last_sample_number) (ss_sample ss (last_tracked - 1))\<rfloor>
       \<and> last_sample_with_frame ss last_sample_number last_tracked \<le> last_sample_number
       \<and> real_of_int (last_sample_with_frame ss last_sample_number last_tracked)
           \<le> ss_sample ss (last_tracked - 1)
       \<and> (\<forall>stp ts. 1 \<le> stp \<and>
             target_samples (last_sample_with_frame ss last_sample_number last_tracked) stp
               = Inr ts \<longrightarrow>
             (\<forall>i<length ts. ts ! i < last_sample_number
                \<and> real_of_int (ts ! i) < ss_sample ss (last_tracked - 1)))"
proof -
  define m where "m = min (real_of_int last_sample_number) (ss_sample ss (last_tracked - 1))"
  define l where "l = last_sample_with_frame ss last_sample_number last_tracked"
  have m0: "0 \<le> m" using assms by (simp add: m_def)
  have l: "l = \<lfloor>m\<rfloor>"
    using m0 by (simp add: l_def last_sample_with_frame_def m_def py_int_def)
  have lm: "real_of_int l \<le> m" using l by simp
  then have a: "real_of_int l \<le> real_of_int last_sample_number"
    and b: "real_of_int l \<le> ss_sample ss (last_tracked - 1)"
    by (simp_all add: m_def)
  have grid: "ts ! i < last_sample_number \<and> real_of_int (ts ! i) < ss_sample ss (last_tracked - 1)"
    if "1 \<le> stp" "target_samples l stp = Inr ts" "i < length ts" for stp ts i
  proof -
    have "ts ! i < l" using target_samples_below [OF that(2) that(1) that(3)] .
    then have "real_of_int (ts ! i) < real_of_int l" by simp
    with a b show ?thesis by linarith
  qed
  show ?thesis
    using l a b grid unfolding l_def m_def by auto
qed

text \<open>
  With a frame every 100 samples, 5000 recorded samples and \<open>last_tracked_frame = 10\<close>
  the grid ends before sample 900, the sample of frame 9.
\<close>

theorem last_sample_clamped_before_last_frame_witness:
  "last_sample_with_frame frames_every_100 5000 10 = 900
   \<and> (\<exists>ts. target_samples 900 100 = Inr ts \<and> ts ! 8 = 800)"
proof -
  have s: "ss_sample frames_every_100 (10 - 1) = 900" by (simp add: frames_every_100_def)
  have h1: "(0::int) \<le> 5000" by simp
  have h2: "0 \<le> ss_sample frames_every_100 (10 - 1)" using s by simp
  have a: "last_sample_with_frame frames_every_100 5000 10 = 900"
    using last_sample_clamped_before_last_frame [OF h1 h2] s by simp
  have "target_samples 900 100 = Inr (map (\<lambda>i. int i * 100) [0..<9])"
    by (simp add: target_samples_def np_arange_def first_sample_def)
  then have "\<exists>ts. target_samples 900 100 = Inr ts \<and> ts ! 8 = 800"
    by simp
  with a show ?thesis by simp
qed

text \<open>
  Against C8 as stated: for that recording \<open>min(last_sample_of_daq, sample_at(last_tracked_frame))\<close>
  is 1000, while the code's \<^verbatim>\<open>last_sample\<close> is 900.
\<close>

theorem last_sample_counterexample:
  "real_of_int (last_sample_with_frame frames_every_100 5000 10) = 900
   \<and> spec_last_sample frames_every_100 5000 10 = 1000"
  by (simp add: last_sample_with_frame_def spec_last_sample_def frames_every_100_def py_int_def)

section \<open>Properties of the event matrix\<close>

lemma astype_uintp_range: "0 \<le> astype_uintp x \<and> astype_uintp x < 2 ^ 64"
  by (simp add: astype_uintp_def)

lemma astype_uintp_div:
  assumes "1 \<le> stp" "0 \<le> s" "s < 2 ^ 64"
  shows "astype_uintp (real_of_int s / real_of_int stp) = s div stp"
proof -
  have nonneg: "0 \<le> real_of_int s / real_of_int stp" using assms by simp
  have fl: "\<lfloor>real_of_int s / real_of_int stp\<rfloor> = s div stp"
    by (simp add: floor_divide_of_int_eq)
  have lo: "0 \<le> s div stp" using assms by (simp add: pos_imp_zdiv_nonneg_iff)
  have "s div stp \<le> s" using zdiv_mono2 [of s 1 stp] assms by simp
  then have hi: "s div stp < 2 ^ 64" using assms(3) by linarith
  show ?thesis
    using nonneg fl lo hi by (simp add: astype_uintp_def py_int_def)
qed

lemma set_event_times:
  "set (event_times stp lswf ev) =
     {e \<in> (\<lambda>s. astype_uintp (real_of_int s / real_of_int stp)) ` set ev.
        real_of_int e < real_of_int lswf / real_of_int stp}"
  by (auto simp: event_times_def)

lemma event_times_in_grid:
  assumes "target_samples lswf stp = Inr ts" "e \<in> set (event_times stp lswf ev)"
  shows "0 \<le> e \<and> nat e < length ts"
proof -
  have len: "length ts = nat \<lceil>real_of_int lswf / real_of_int stp\<rceil>"
    using target_samples_length [OF assms(1)] by simp
  from assms(2) obtain s where e: "e = astype_uintp (real_of_int s / real_of_int stp)"
    and lt: "real_of_int e < real_of_int lswf / real_of_int stp"
    by (auto simp: set_event_times)
  have e0: "0 \<le> e" using e astype_uintp_range by simp
  have "e < \<lceil>real_of_int lswf / real_of_int stp\<rceil>"
    using lt by (simp add: less_ceiling_iff)
  then show ?thesis using e0 len by linarith
qed

lemma event_times_dropped:
  assumes "target_samples lswf stp = Inr ts" "int (length ts) \<le> e"
  shows "e \<notin> set (event_times stp lswf ev)"
proof
  assume "e \<in> set (event_times stp lswf ev)"
  then have "nat e < length ts" using event_times_in_grid [OF assms(1)] by blast
  with assms(2) show False by linarith
qed

lemma write_true_rows:
  assumes "\<forall>e\<in>set es. nat e < length m"
  shows "\<exists>m'. write_true m es cnt = Inr m' \<and> length m' = length m
           \<and> (\<forall>i<length m. m' ! i = (if i \<in> nat ` set es then (m ! i)[cnt := True] else m ! i))"
  using assms
proof (induction es arbitrary: m)
  case Nil
  then show ?case by simp
next
  case (Cons e es)
  define m1 where "m1 = m[nat e := (m ! nat e)[cnt := True]]"
  have e: "nat e < length m" using Cons.prems by simp
  have "\<forall>x\<in>set es. nat x < length m1" using Cons.prems by (simp add: m1_def)
  from Cons.IH [OF this] obtain m' where m': "write_true m1 es cnt = Inr m'"
    "length m' = length m1"
    "\<forall>i<length m1. m' ! i = (if i \<in> nat ` set es then (m1 ! i)[cnt := True] else m1 ! i)"
    by blast
  have w: "write_true m (e # es) cnt = Inr m'" using e m'(1) by (simp add: m1_def)
  have len: "length m' = length m" using m'(2) by (simp add: m1_def)
  have rows: "m' ! i = (if i \<in> nat ` set (e # es) then (m ! i)[cnt := True] else m ! i)"
    if "i < length m" for i
  proof -
    have "m' ! i = (if i \<in> nat ` set es then (m1 ! i)[cnt := True] else m1 ! i)"
      using m'(3) that by (simp add: m1_def)
    moreover have "m1 ! i = (if i = nat e then (m ! i)[cnt := True] else m ! i)"
      using that by (simp add: m1_def nth_list_update)
    ultimately show ?thesis by auto
  qed
  show ?case using w len rows by blast
qed

lemma fill_events_cells:
  assumes "target_samples lswf stp = Inr ts" "length m = length ts"
    "\<forall>row\<in>set m. length row = w" "cnt + length events \<le> w"
  shows "\<exists>m'. fill_events stp lswf m cnt events = Inr m' \<and> length m' = length m
           \<and> (\<forall>row\<in>set m'. length row = w)
           \<and> (\<forall>i<length m. \<forall>j<w. m' ! i ! j =
                 (m ! i ! j \<or> (cnt \<le> j \<and> j < cnt + length events
                    \<and> int i \<in> set (event_times stp lswf (snd (events ! (j - cnt)))))))"
  using assms(2-)
proof (induction events arbitrary: m cnt)
  case Nil
  then show ?case by auto
next
  case (Cons kv events)
  obtain key ev where kv: "kv = (key, ev)" by (cases kv)
  have inb: "\<forall>e\<in>set (event_times stp lswf ev). nat e < length m"
    using event_times_in_grid [OF assms(1)] Cons.prems(1) by simp
  from write_true_rows [OF inb, of cnt] obtain m1 where m1:
    "write_true m (event_times stp lswf ev) cnt = Inr m1" "length m1 = length m"
    "\<forall>i<length m. m1 ! i = (if i \<in> nat ` set (event_times stp lswf ev)
                              then (m ! i)[cnt := True] else m ! i)"
    by blast
  have w1: "\<forall>row\<in>set m1. length row = w"
  proof
    fix row assume "row \<in> set m1"
    then obtain i where i: "i < length m1" "row = m1 ! i" by (auto simp: in_set_conv_nth)
    then have "length (m ! i) = w" using Cons.prems(2) m1(2) by simp
    then show "length row = w" using i m1(2) m1(3) by simp
  qed
  have "length m1 = length ts" using m1(2) Cons.prems(1) by simp
  moreover have "Suc cnt + length events \<le> w" using Cons.prems(3) by simp
  ultimately obtain m' where m': "fill_events stp lswf m1 (Suc cnt) events = Inr m'"
    "length m' = length m1" "\<forall>row\<in>set m'. length row = w"
    "\<forall>i<length m1. \<forall>j<w. m' ! i ! j =
        (m1 ! i ! j \<or> (Suc cnt \<le> j \<and> j < Suc cnt + length events
           \<and> int i \<in> set (event_times stp lswf (snd (events ! (j - Suc cnt))))))"
    using Cons.IH [OF _ w1] by blast
  have res: "fill_events stp lswf m cnt (kv # events) = Inr m'"
    using m1(1) m'(1) by (simp add: kv)
  have cells: "m' ! i ! j = (m ! i ! j \<or> (cnt \<le> j \<and> j < cnt + length (kv # events)
        \<and> int i \<in> set (event_times stp lswf (snd ((kv # events) ! (j - cnt))))))"
    if ij: "i < length m" "j < w" for i j
  proof -
    have rowlen: "length (m ! i) = w" using Cons.prems(2) ij(1) by simp
    have mem: "(i \<in> nat ` set (event_times stp lswf ev)) = (int i \<in> set (event_times stp lswf ev))"
    proof
      assume "i \<in> nat ` set (event_times stp lswf ev)"
      then obtain e where e: "e \<in> set (event_times stp lswf ev)" "i = nat e" by blast
      then have "0 \<le> e" using event_times_in_grid [OF assms(1)] by blast
      then show "int i \<in> set (event_times stp lswf ev)" using e by simp
    next
      assume "int i \<in> set (event_times stp lswf ev)"
      then have "nat (int i) \<in> nat ` set (event_times stp lswf ev)" by (rule imageI)
      then show "i \<in> nat ` set (event_times stp lswf ev)" by simp
    qed
    have a: "m1 ! i ! j = (m ! i ! j \<or> (j = cnt \<and> int i \<in> set (event_times stp lswf ev)))"
    proof (cases "int i \<in> set (event_times stp lswf ev)")
      case True
      then have "m1 ! i = (m ! i)[cnt := True]" using m1(3) ij(1) mem by simp
      then show ?thesis using True ij(2) rowlen Cons.prems(3) by (auto simp: nth_list_update)
    next
      case False
      then have "m1 ! i = m ! i" using m1(3) ij(1) mem by simp
      then show ?thesis using False by simp
    qed
    have b: "m' ! i ! j = (m1 ! i ! j \<or> (Suc cnt \<le> j \<and> j < Suc cnt + length events
           \<and> int i \<in> set (event_times stp lswf (snd (events ! (j - Suc cnt))))))"
      using m'(4) ij m1(2) by simp
    show ?thesis
    proof (cases "j = cnt")
      case True
      then show ?thesis using a b by (simp add: kv)
    next
      case False
      then show ?thesis
      proof (cases "cnt < j")
        case True
        then obtain k where k: "j - cnt = Suc k" "j - Suc cnt = k"
          by (metis Suc_diff_Suc diff_Suc_eq_diff_pred diff_Suc_1 zero_less_diff)
        then show ?thesis using a b False True by auto
      next
        case False
        then show ?thesis using a b \<open>j \<noteq> cnt\<close> by auto
      qed
    qed
  qed
  show ?case using res m'(2) m1(2) m'(3) cells by auto
qed

lemma song_events_np_cells:
  assumes "target_samples lswf stp = Inr ts"
  shows "\<exists>m. song_events_np (length ts) stp lswf events = Inr m \<and> length m = length ts
           \<and> (\<forall>row\<in>set m. length row = length events)
           \<and> (\<forall>i<length ts. \<forall>j<length events.
                 m ! i ! j = (int i \<in> set (event_times stp lswf (snd (events ! j)))))"
proof -
  have "\<exists>m'. fill_events stp lswf (replicate (length ts) (replicate (length events) False)) 0 events = Inr m'
     \<and> length m' = length (replicate (length ts) (replicate (length events) False))
     \<and> (\<forall>row\<in>set m'. length row = length events)
     \<and> (\<forall>i<length (replicate (length ts) (replicate (length events) False)). \<forall>j<length events. m' ! i ! j =
          (replicate (length ts) (replicate (length events) False) ! i ! j
           \<or> (0 \<le> j \<and> j < 0 + length events
              \<and> int i \<in> set (event_times stp lswf (snd (events ! (j - 0)))))))"
    by (rule fill_events_cells [OF assms]) simp_all
  then show ?thesis by (auto simp: song_events_np_def)
qed

lemma grid_index_iff:
  assumes "target_samples lswf stp = Inr ts"
  shows "(b < int (length ts)) = (b < 0 \<or> real_of_int b < real_of_int lswf / real_of_int stp)"
proof -
  have len: "length ts = nat \<lceil>real_of_int lswf / real_of_int stp\<rceil>"
    using target_samples_length [OF assms] by simp
  have "(real_of_int b < real_of_int lswf / real_of_int stp)
      = (b < \<lceil>real_of_int lswf / real_of_int stp\<rceil>)"
    by (simp add: less_ceiling_iff)
  then show ?thesis using len by auto
qed

lemma event_times_member:
  assumes "target_samples lswf stp = Inr ts" "1 \<le> stp" "0 \<le> s" "s < 2 ^ 64" "s \<in> set ev"
    "s div stp < int (length ts)"
  shows "s div stp \<in> set (event_times stp lswf ev)"
proof -
  have bin: "astype_uintp (real_of_int s / real_of_int stp) = s div stp"
    using astype_uintp_div [OF assms(2,3,4)] .
  have "0 \<le> s div stp" using assms(2,3) by (simp add: pos_imp_zdiv_nonneg_iff)
  then have "real_of_int (s div stp) < real_of_int lswf / real_of_int stp"
    using grid_index_iff [OF assms(1), of "s div stp"] assms(6) by simp
  then show ?thesis
    using bin assms(5) by (force simp: set_event_times)
qed

lemma event_times_same_bin:
  assumes "1 \<le> stp" "0 \<le> s" "s < 2 ^ 64" "ev \<noteq> []"
    "\<forall>s'\<in>set ev. 0 \<le> s' \<and> s' < 2 ^ 64 \<and> s' div stp = s div stp"
  shows "event_times stp lswf ev = event_times stp lswf [s]"
proof -
  have "map (\<lambda>s. astype_uintp (real_of_int s / real_of_int stp)) ev
      = map (\<lambda>s'. s div stp) ev"
    using assms(1,5) by (simp add: astype_uintp_div)
  moreover have "set (map (\<lambda>s'. s div stp) ev) = {s div stp}"
    using assms(4) by (cases ev) auto
  ultimately have "set (map (\<lambda>s. astype_uintp (real_of_int s / real_of_int stp)) ev) = {s div stp}"
    by simp
  moreover have "set (map (\<lambda>s. astype_uintp (real_of_int s / real_of_int stp)) [s]) = {s div stp}"
    using assms(1,2,3) by (simp add: astype_uintp_div)
  ultimately have "sort (remdups (map (\<lambda>s. astype_uintp (real_of_int s / real_of_int stp)) ev))
      = sort (remdups (map (\<lambda>s. astype_uintp (real_of_int s / real_of_int stp)) [s]))"
    by (metis sorted_list_of_set_sort_remdups)
  then show ?thesis by (simp add: event_times_def)
qed

lemma fill_events_cong:
  assumes "map (\<lambda>kv. event_times stp lswf (snd kv)) evs
         = map (\<lambda>kv. event_times stp lswf (snd kv)) evs'"
  shows "fill_events stp lswf m cnt evs = fill_events stp lswf m cnt evs'"
  using assms
proof (induction evs arbitrary: evs' m cnt)
  case Nil
  then show ?case by simp
next
  case (Cons kv evs)
  then obtain kv' rest where evs': "evs' = kv' # rest" by (cases evs') auto
  obtain k e where kv: "kv = (k, e)" by (cases kv)
  obtain k' e' where kv': "kv' = (k', e')" by (cases kv')
  have hd: "event_times stp lswf e = event_times stp lswf e'"
    and tl: "map (\<lambda>kv. event_times stp lswf (snd kv)) evs
           = map (\<lambda>kv. event_times stp lswf (snd kv)) rest"
    using Cons.prems by (simp_all add: evs' kv kv')
  show ?case
    using hd Cons.IH [OF tl] by (simp add: evs' kv kv' split: sum.splits)
qed

text \<open>
  Claim C4. On a grid built with a step of at least 1, a point event at a native
  sample \<open>s\<close> below \<open>2^53\<close> (where the float64 division of line 181 is exact) is binned
  to \<open>floor(s / step)\<close>. Events of one type that all fall into the bin of \<open>s\<close> give the
  same matrix as the single event \<open>s\<close>, whatever the other event types are, and the
  column of that type is True exactly at index \<open>floor(s / step)\<close> (nowhere when that
  index is beyond the grid).
\<close>

theorem point_event_binning:
  assumes "target_samples lswf stp = Inr ts" "1 \<le> stp" "0 \<le> s" "s < 2 ^ 53" "ev \<noteq> []"
    "\<forall>s'\<in>set ev. 0 \<le> s' \<and> s' < 2 ^ 53 \<and> s' div stp = s div stp"
  shows "astype_uintp (real_of_int s / real_of_int stp) = s div stp
       \<and> song_events_np (length ts) stp lswf (pre @ (key, ev) # post)
           = song_events_np (length ts) stp lswf (pre @ (key, [s]) # post)
       \<and> (\<exists>m. song_events_np (length ts) stp lswf (pre @ (key, ev) # post) = Inr m
              \<and> column (length pre) m = map (\<lambda>i. int i = s div stp) [0 ..< length ts])"
proof -
  have s64: "s < 2 ^ 64" using assms(4) by simp
  have ev64: "\<forall>s'\<in>set ev. 0 \<le> s' \<and> s' < 2 ^ 64 \<and> s' div stp = s div stp"
  proof
    fix s' assume "s' \<in> set ev"
    then have "0 \<le> s' \<and> s' < 2 ^ 53 \<and> s' div stp = s div stp" using assms(6) by blast
    then show "0 \<le> s' \<and> s' < 2 ^ 64 \<and> s' div stp = s div stp" by simp
  qed
  have bin: "astype_uintp (real_of_int s / real_of_int stp) = s div stp"
    using astype_uintp_div [OF assms(2,3) s64] .
  have ev: "event_times stp lswf ev = event_times stp lswf [s]"
    using event_times_same_bin [OF assms(2,3) s64 assms(5) ev64] .
  then have "map (\<lambda>kv. event_times stp lswf (snd kv)) (pre @ (key, ev) # post)
      = map (\<lambda>kv. event_times stp lswf (snd kv)) (pre @ (key, [s]) # post)"
    by simp
  then have same: "song_events_np (length ts) stp lswf (pre @ (key, ev) # post)
           = song_events_np (length ts) stp lswf (pre @ (key, [s]) # post)"
    unfolding song_events_np_def using fill_events_cong by simp
  define events where "events = pre @ (key, ev) # post"
  from song_events_np_cells [OF assms(1), of events] obtain m where
    m: "song_events_np (length ts) stp lswf events = Inr m" "length m = length ts"
       "\<forall>i<length ts. \<forall>j<length events.
           m ! i ! j = (int i \<in> set (event_times stp lswf (snd (events ! j))))"
    by blast
  have cell: "m ! i ! length pre = (int i = s div stp)" if "i < length ts" for i
  proof -
    have "m ! i ! length pre = (int i \<in> set (event_times stp lswf [s]))"
      using m(3) that ev by (simp add: events_def)
    also have "\<dots> = (int i = s div stp)"
    proof
      assume "int i \<in> set (event_times stp lswf [s])"
      then show "int i = s div stp"
        using bin by (simp add: set_event_times)
    next
      assume "int i = s div stp"
      then have "s div stp < int (length ts)" using that by simp
      from event_times_member [OF assms(1,2,3) s64 _ this, of "[s]"]
      show "int i \<in> set (event_times stp lswf [s])" using \<open>int i = s div stp\<close> by simp
    qed
    finally show ?thesis .
  qed
  have "column (length pre) m = map (\<lambda>i. int i = s div stp) [0 ..< length ts]"
    by (rule nth_equalityI) (simp_all add: column_def m(2) cell)
  then have col: "\<exists>m. song_events_np (length ts) stp lswf (pre @ (key, ev) # post) = Inr m
              \<and> column (length pre) m = map (\<lambda>i. int i = s div stp) [0 ..< length ts]"
    using m(1) by (simp add: events_def)
  show ?thesis using bin same col by blast
qed

lemma grid_1000_by_10:
  "target_samples 1000 10 = Inr (map (\<lambda>i. int i * 10) [0 ..< 100])"
  by (simp add: target_samples_def np_arange_def first_sample_def)

text \<open>
  The scenario of the specification: with step 10 the events at samples 205 and 209
  both land in bin 20, and the column holds one True, at index 20.
\<close>

theorem point_event_binning_witness:
  "astype_uintp (205 / 10) = 20 \<and> astype_uintp (209 / 10) = 20
   \<and> song_events_np 100 10 1000 [(''pulse'', [205, 209])]
       = song_events_np 100 10 1000 [(''pulse'', [205])]
   \<and> (\<exists>m. song_events_np 100 10 1000 [(''pulse'', [205, 209])] = Inr m
          \<and> column 0 m = map (\<lambda>i. i = 20) [0 ..< 100]
          \<and> length (filter (\<lambda>c. c) (column 0 m)) = 1)"
proof -
  have p1: "(1::int) \<le> 10" and p2: "(0::int) \<le> 205" and p3: "(205::int) < 2 ^ 53"
    and p4: "[205, 209 :: int] \<noteq> []" by simp_all
  have h: "\<forall>s'\<in>set [205, 209 :: int]. 0 \<le> s' \<and> s' < 2 ^ 53 \<and> s' div 10 = 205 div 10"
    by simp
  have fn: "(\<lambda>i. int i = 20) = (\<lambda>i. i = 20)" by auto
  note T = point_event_binning [OF grid_1000_by_10 p1 p2 p3 p4 h, of "[]" "''pulse''" "[]"]
  from T [THEN conjunct1] have a: "astype_uintp (205 / 10) = 20" by simp
  from T [THEN conjunct2, THEN conjunct1]
  have b: "song_events_np 100 10 1000 [(''pulse'', [205, 209])]
              = song_events_np 100 10 1000 [(''pulse'', [205])]"
    by simp
  from T [THEN conjunct2, THEN conjunct2]
  have c: "\<exists>m. song_events_np 100 10 1000 [(''pulse'', [205, 209])] = Inr m
              \<and> column 0 m = map (\<lambda>i. i = 20) [0 ..< 100]"
    by (simp add: fn)
  then obtain m where m: "song_events_np 100 10 1000 [(''pulse'', [205, 209])] = Inr m"
    "column 0 m = map (\<lambda>i. i = 20) [0 ..< 100]"
    by blast
  have one: "length (filter (\<lambda>c. c) (map (\<lambda>i. i = 20) [0 ..< 100 :: nat])) = 1"
    by code_simp
  have d: "astype_uintp (209 / 10) = 20" by (simp add: astype_uintp_def py_int_def)
  have "length (filter (\<lambda>c. c) (column 0 m)) = 1" using m(2) one by simp
  with a b d m show ?thesis by blast
qed

text \<open>
  Claim C6. For the grid built from \<^verbatim>\<open>last_sample_with_frame\<close> and the step, every
  retained bin index is non-negative and strictly below the grid length, every event
  whose bin index is at or beyond the grid length is discarded, and the write into the
  matrix of shape \<open>[grid_length, num_event_types]\<close> never raises IndexError.
\<close>

theorem out_of_grid_events_dropped:
  assumes "target_samples lswf stp = Inr ts"
  shows "(\<forall>e\<in>set (event_times stp lswf ev). 0 \<le> e \<and> nat e < length ts)
       \<and> (\<forall>s\<in>set ev. int (length ts) \<le> astype_uintp (real_of_int s / real_of_int stp) \<longrightarrow>
             astype_uintp (real_of_int s / real_of_int stp) \<notin> set (event_times stp lswf ev))
       \<and> (\<exists>m. song_events_np (length ts) stp lswf events = Inr m \<and> length m = length ts
             \<and> (\<forall>row\<in>set m. length row = length events))"
proof (intro conjI)
  show "\<forall>e\<in>set (event_times stp lswf ev). 0 \<le> e \<and> nat e < length ts"
    using event_times_in_grid [OF assms] by blast
next
  show "\<forall>s\<in>set ev. int (length ts) \<le> astype_uintp (real_of_int s / real_of_int stp) \<longrightarrow>
          astype_uintp (real_of_int s / real_of_int stp) \<notin> set (event_times stp lswf ev)"
    using event_times_dropped [OF assms] by blast
next
  show "\<exists>m. song_events_np (length ts) stp lswf events = Inr m \<and> length m = length ts
          \<and> (\<forall>row\<in>set m. length row = length events)"
    using song_events_np_cells [OF assms, of events] by blast
qed

lemma grid_45_by_10: "target_samples 45 10 = Inr (map (\<lambda>i. int i * 10) [0 ..< 5])"
  by (simp add: target_samples_def np_arange_def first_sample_def)

text \<open>
  With 45 samples and step 10 the grid has 5 points: the events at samples 20, 39 and 45
  are kept in bins 2, 3 and 4, the event at sample 50 (bin 5) is dropped.
\<close>

theorem out_of_grid_events_dropped_witness:
  "event_times 10 45 [20, 45, 50, 39] = [2, 3, 4]
   \<and> astype_uintp (50 / 10) = 5
   \<and> (\<exists>m. song_events_np 5 10 45 [(''pulse'', [20, 45, 50, 39])] = Inr m \<and> length m = 5)"
proof -
  have a: "event_times 10 45 [20, 45, 50, 39] = [2, 3, 4]"
    by (simp add: event_times_def astype_uintp_def py_int_def)
  have b: "astype_uintp (50 / 10) = 5" by (simp add: astype_uintp_def py_int_def)
  from out_of_grid_events_dropped [OF grid_45_by_10, of "[20, 45, 50, 39]"
      "[(''pulse'', [20, 45, 50, 39])]", THEN conjunct2, THEN conjunct2]
  have "\<exists>m. song_events_np 5 10 45 [(''pulse'', [20, 45, 50, 39])] = Inr m \<and> length m = 5"
    by simp blast
  with a b show ?thesis by blast
qed







section \<open>Properties of \<^verbatim>\<open>assemble\<close>\<close>

lemma nearest_frame_time_length:
  assumes "nearest_frame_time pf ss first_tracked last_tracked ts = Inr nearest"
  shows "length nearest = length ts"
  using assms
  by (auto simp: nearest_frame_time_def nearest_frame_float_def split: sum.splits)

lemma nearest_frame_time_Inr:
  assumes "frame_numbers first_tracked last_tracked \<noteq> []"
    "interp1d_minval pf \<le> length (frame_numbers first_tracked last_tracked)"
  shows "\<exists>nearest. nearest_frame_time pf ss first_tracked last_tracked ts = Inr nearest"
  using assms
  by (simp add: nearest_frame_time_def nearest_frame_float_def interp1d_def)

lemma resample_positions_length:
  assumes "resample_positions pf ss first_frame last_frame pos ts = Inr data"
  shows "length data = length ts"
  using assms by (auto simp: resample_positions_def split: sum.splits)

lemma resample_positions_Inr:
  assumes "pos \<noteq> []" "length pos = length (frame_numbers first_frame last_frame)"
    "interp1d_minval pf \<le> length pos"
  shows "\<exists>data. resample_positions pf ss first_frame last_frame pos ts = Inr data"
  using assms by (auto simp: resample_positions_def interp1d_def)

lemma manual_events_dict_Inr:
  assumes "\<forall>kv\<in>set manual. snd kv \<noteq> Segments []"
  shows "\<exists>evs. manual_events_dict sampling_rate manual = Inr evs \<and> map fst evs = map fst manual"
  using assms
proof (induction manual)
  case Nil
  then show ?case by simp
next
  case (Cons kv manual)
  obtain key val where kv: "kv = (key, val)" by (cases kv)
  have "\<exists>samples. manual_events_samples sampling_rate val = Inr samples"
  proof (cases val)
    case (Points ts)
    then show ?thesis by (simp add: manual_events_samples_def)
  next
    case (Segments ps)
    then have "ps \<noteq> []" using Cons.prems kv by auto
    then show ?thesis using Segments by (simp add: manual_events_samples_def segment_mask_def)
  qed
  moreover have "\<exists>evs. manual_events_dict sampling_rate manual = Inr evs
      \<and> map fst evs = map fst manual"
    using Cons by simp
  ultimately show ?case by (auto simp: kv)
qed

lemma sampletime_length: "length (sampletime last_sample sampling_rate) = nat last_sample"
  by (simp add: sampletime_def first_sample_def)

lemma py_slice_prefix_length:
  assumes "0 \<le> last_sample" "last_sample \<le> int (length xs)"
  shows "length (py_slice first_sample last_sample xs) = nat last_sample"
  using assms by (simp add: py_slice_def slice_bound_def first_sample_def)

lemma events_block_no_segmentation:
  assumes "target_samples lswf stp = Inr ts" "length nearest = length ts"
    "\<forall>manual. load_manual_annotation inp = Some manual \<longrightarrow>
       (\<forall>kv\<in>set manual. snd kv \<noteq> Segments [])"
  shows "\<exists>evs. events_block inp False r sampling_rate stp lswf (grid_time ts sampling_rate) nearest
           = Inr evs"
proof (cases "load_manual_annotation inp")
  case None
  then show ?thesis by (simp add: events_block_def)
next
  case (Some manual)
  then have "\<forall>kv\<in>set manual. snd kv \<noteq> Segments []" using assms(3) by simp
  from manual_events_dict_Inr [OF this, of sampling_rate] obtain events where
    ev: "manual_events_dict sampling_rate manual = Inr events" by blast
  from song_events_np_cells [OF assms(1), of events] obtain m where
    m: "song_events_np (length ts) stp lswf events = Inr m" "length m = length ts" by blast
  show ?thesis
    using Some ev m assms(2)
    by (simp add: events_block_def grid_time_def events_DataArray_def)
qed

text \<open>
  Claim C3, as the code has it by design. When both pose loaders fail, the timing,
  tracking and raw-song loaders (with the merging of the channels) succeed, the
  automatic segmentation is not loaded, the target rate is positive and not above the
  sampling rate, \<^verbatim>\<open>resample_video_data\<close> is on, the recording covers the grid span,
  the tracks hold one row per tracked frame (enough of them for the interpolator) and
  no manual segment table is empty, then \<^verbatim>\<open>assemble\<close> returns a dataset with \<^verbatim>\<open>song\<close> and \<^verbatim>\<open>body_positions\<close>
  and without \<^verbatim>\<open>pose_positions\<close> and \<^verbatim>\<open>pose_positions_allo\<close>.
\<close>

theorem graceful_degradation_without_poses:
  assumes times: "load_times inp = Inr (ss, last_sample_number, sampling_rate)"
    and no_poses: "load_poses_deepposekit inp = None" "load_poses_leap inp = None"
    and trk: "load_tracks_fixed inp = Some t
              \<or> (load_tracks_fixed inp = None \<and> load_tracks_nonfixed inp = Some t)"
    and raw: "load_raw_song inp = Some raw" "merge_channels inp raw sampling_rate = Some merged"
    and no_seg: "load_segmentation inp = None"
    and manual: "\<forall>manual. load_manual_annotation inp = Some manual \<longrightarrow>
                   (\<forall>kv\<in>set manual. snd kv \<noteq> Segments [])"
    and rates: "0 < target_sampling_rate inp" "target_sampling_rate inp \<le> sampling_rate"
    and resample: "resample_video_data inp"
    and span: "0 \<le> last_sample_with_frame ss last_sample_number (last_tracked_frame t)"
      "last_sample_with_frame ss last_sample_number (last_tracked_frame t) \<le> int (length merged)"
      "last_sample_with_frame ss last_sample_number (last_tracked_frame t) \<le> int (length raw)"
    and frames: "body_pos t \<noteq> []"
      "length (body_pos t) = length (frame_numbers (first_tracked_frame t) (last_tracked_frame t))"
      "interp1d_minval pf \<le> length (body_pos t)"
  shows "\<exists>ds. assemble pf inp = Inr ds \<and> song ds \<noteq> None \<and> body_positions ds \<noteq> None
           \<and> pose_positions ds = None \<and> pose_positions_allo ds = None"
proof -
  define lswf where "lswf = last_sample_with_frame ss last_sample_number (last_tracked_frame t)"
  define stp where "stp = py_int (sampling_rate / target_sampling_rate inp)"
  have "\<exists>fixed. tracks_block inp ss last_sample_number
      = (Some t, fixed, first_tracked_frame t, last_tracked_frame t)"
    using trk by (auto simp: tracks_block_def)
  then obtain fixed where tb: "tracks_block inp ss last_sample_number
      = (Some t, fixed, first_tracked_frame t, last_tracked_frame t)"
    by blast
  have pb: "poses_block inp = None" using no_poses by (simp add: poses_block_def)
  obtain r where sb: "song_block inp sampling_rate = (False, True, r)"
    and r: "res_song r = Some merged" "keep_multi_channel inp \<longrightarrow> res_song_raw r = Some raw"
    using raw no_seg by (auto simp: song_block_def raw_song_block_def)
  have step: "compute_step sampling_rate (target_sampling_rate inp) = Inr stp" and stp1: "1 \<le> stp"
    using rates py_int_pos_quotient [of "target_sampling_rate inp" sampling_rate]
    by (simp_all add: compute_step_def stp_def)
  obtain ts where ts: "target_samples lswf stp = Inr ts"
    using stp1 by (auto simp: target_samples_def np_arange_def)
  have fr: "frame_numbers (first_tracked_frame t) (last_tracked_frame t) \<noteq> []"
    using frames(1,2) by auto
  obtain nearest where nf: "nearest_frame_time pf ss (first_tracked_frame t)
      (last_tracked_frame t) ts = Inr nearest"
    using nearest_frame_time_Inr [OF fr] frames(2,3) by metis
  have nlen: "length nearest = length ts" using nearest_frame_time_length [OF nf] .
  obtain sng rw where sa: "song_arrays inp True r lswf (sampletime lswf sampling_rate)
      = Inr (Some sng, rw)"
    using r span py_slice_prefix_length [of lswf merged] py_slice_prefix_length [of lswf raw]
    by (cases "keep_multi_channel inp")
       (auto simp: song_arrays_def song_DataArray_def song_raw_DataArray_def
          sampletime_length lswf_def)
  obtain evs where eb: "events_block inp False r sampling_rate stp lswf
      (grid_time ts sampling_rate) nearest = Inr evs"
    using events_block_no_segmentation [OF ts nlen manual] by blast
  obtain data where d: "resample_positions pf ss (first_tracked_frame t) (last_tracked_frame t)
      (body_pos t) ts = Inr data"
    using resample_positions_Inr [OF frames, of ss ts] by blast
  have dlen: "length data = length ts" using resample_positions_length [OF d] .
  obtain body where bb: "body_block pf inp ss (Some t) ts
      (grid_time ts sampling_rate) nearest = Inr (Some body, grid_time ts sampling_rate, nearest)"
    using resample d dlen nlen
    by (simp add: body_block_def positions_DataArray_def grid_time_def)
  have pose: "pose_block pf inp ss None (first_tracked_frame t) (last_tracked_frame t) ts
      (grid_time ts sampling_rate) nearest = Inr (None, None)"
    by (simp add: pose_block_def)
  have "assemble pf inp = Inr \<lparr>song = Some sng, song_raw = rw, song_events = evs,
      body_positions = Some body, pose_positions = None, pose_positions_allo = None\<rparr>"
    using times tb pb sb step ts nf sa eb bb pose
    by (simp add: assemble_def assemble_from_def lswf_def [symmetric])
  then show ?thesis by simp
qed

text \<open>The recording of the examples meets every condition, and is assembled.\<close>

theorem graceful_degradation_without_poses_witness:
  "\<exists>ds. assemble x86_64 recording = Inr ds \<and> song ds \<noteq> None \<and> body_positions ds \<noteq> None
     \<and> pose_positions ds = None \<and> pose_positions_allo ds = None"
proof -
  have l: "last_sample_with_frame frames_every_2 12 (last_tracked_frame tracked_2_to_6) = 10"
    by (simp add: last_sample_with_frame_def frames_every_2_def tracked_2_to_6_def py_int_def)
  have f: "frame_numbers (first_tracked_frame tracked_2_to_6) (last_tracked_frame tracked_2_to_6)
      = [2, 3, 4, 5]"
    by (simp add: frame_numbers_def tracked_2_to_6_def upto.simps)
  show ?thesis
    by (rule graceful_degradation_without_poses [of recording frames_every_2 12 2 tracked_2_to_6
          "replicate 12 [0, 1]" "replicate 12 1" x86_64])
       (simp_all add: l f, simp_all add: recording_def tracked_2_to_6_def x86_64_def)
qed

text \<open>
  Against C3 as stated: the poses fail and timing, tracking and raw song succeed in
  both runs, yet \<^verbatim>\<open>assemble\<close> raises. In the first the automatic segmentation is loaded
  as well; in the second the target rate is 4 Hz for a recording at 2 Hz.
\<close>

theorem graceful_degradation_counterexample:
  "assemble x86_64 (recording\<lparr>load_segmentation := Some segmented\<rparr>) = Inl NameError
   \<and> assemble x86_64 (recording\<lparr>target_sampling_rate := 4\<rparr>) = Inl ZeroDivisionError"
  by code_simp

lemma segmentation_events_Inl: "\<exists>e. segmentation_events r events = Inl e"
  by (simp add: segmentation_events_def split: option.splits)

lemma events_block_with_segmentation:
  "events_block inp True r sampling_rate stp lswf time nearest \<noteq> Inr evs"
proof (cases "case load_manual_annotation inp of
                Some manual \<Rightarrow> manual_events_dict sampling_rate manual | None \<Rightarrow> Inr []")
  case (Inl e)
  then show ?thesis by (simp add: events_block_def)
next
  case (Inr events0)
  obtain e where "segmentation_events r events0 = Inl e"
    using segmentation_events_Inl by blast
  then show ?thesis using Inr by (simp add: events_block_def)
qed

lemma song_block_with_segmentation:
  assumes "load_segmentation inp = Some seg"
  shows "\<exists>with_song r. song_block inp sampling_rate = (True, with_song, r)"
  using assms by (simp add: song_block_def)

text \<open>
  Claim C9, as the code has it. Whenever the automatic segmentation is loaded,
  \<^verbatim>\<open>assemble\<close> raises and returns no dataset, so that the branch never adds events to
  a completed dataset. The exception is the NameError of \<^verbatim>\<open>song_labels\<close> whenever no
  statement before line 175 raises (the step and the grid are built, the interpolator
  and the song arrays are made, the manual events are converted, and \<^verbatim>\<open>res\<close> holds the
  pulse times and as many labels); otherwise it is the exception of that earlier
  statement.
\<close>

theorem automatic_segmentation_raises_NameError:
  assumes "load_segmentation inp = Some seg"
  shows "(\<exists>e. assemble pf inp = Inl e)
       \<and> (\<forall>ss last_sample_number sampling_rate trk fixed first_tracked last_tracked with_song r
            stp ts nearest arrays events0 pulse_times pulse_labels.
            load_times inp = Inr (ss, last_sample_number, sampling_rate)
          \<and> tracks_block inp ss last_sample_number = (trk, fixed, first_tracked, last_tracked)
          \<and> song_block inp sampling_rate = (True, with_song, r)
          \<and> compute_step sampling_rate (target_sampling_rate inp) = Inr stp
          \<and> target_samples (last_sample_with_frame ss last_sample_number last_tracked) stp = Inr ts
          \<and> nearest_frame_time pf ss first_tracked last_tracked ts = Inr nearest
          \<and> song_arrays inp with_song r (last_sample_with_frame ss last_sample_number last_tracked)
               (sampletime (last_sample_with_frame ss last_sample_number last_tracked)
                  sampling_rate) = Inr arrays
          \<and> (case load_manual_annotation inp of
                Some manual \<Rightarrow> manual_events_dict sampling_rate manual
              | None \<Rightarrow> Inr []) = Inr events0
          \<and> res_pulse_times_samples r = Some pulse_times
          \<and> res_pulse_labels r = Some pulse_labels
          \<and> length pulse_labels = length pulse_times
          \<longrightarrow> assemble pf inp = Inl NameError)"
proof (intro conjI allI impI)
  show "\<exists>e. assemble pf inp = Inl e"
  proof (cases "load_times inp")
    case (Inl e)
    then show ?thesis by (simp add: assemble_def)
  next
    case (Inr loaded)
    obtain ss last_sample_number sampling_rate where
      loaded: "loaded = (ss, last_sample_number, sampling_rate)" by (cases loaded)
    obtain with_song r where sb: "song_block inp sampling_rate = (True, with_song, r)"
      using song_block_with_segmentation [OF assms] by blast
    have "assemble_from pf inp ss last_sample_number sampling_rate \<noteq> Inr ds" for ds
      using sb events_block_with_segmentation [of inp r sampling_rate]
      by (auto simp: assemble_from_def Let_def split: prod.splits sum.splits)
    then have "\<exists>e. assemble_from pf inp ss last_sample_number sampling_rate = Inl e"
      by (cases "assemble_from pf inp ss last_sample_number sampling_rate") auto
    then show ?thesis using Inr loaded by (simp add: assemble_def)
  qed
next
  fix ss last_sample_number sampling_rate trk fixed first_tracked last_tracked with_song r
    stp ts nearest arrays events0 pulse_times pulse_labels
  assume h: "load_times inp = Inr (ss, last_sample_number, sampling_rate)
          \<and> tracks_block inp ss last_sample_number = (trk, fixed, first_tracked, last_tracked)
          \<and> song_block inp sampling_rate = (True, with_song, r)
          \<and> compute_step sampling_rate (target_sampling_rate inp) = Inr stp
          \<and> target_samples (last_sample_with_frame ss last_sample_number last_tracked) stp = Inr ts
          \<and> nearest_frame_time pf ss first_tracked last_tracked ts = Inr nearest
          \<and> song_arrays inp with_song r (last_sample_with_frame ss last_sample_number last_tracked)
               (sampletime (last_sample_with_frame ss last_sample_number last_tracked)
                  sampling_rate) = Inr arrays
          \<and> (case load_manual_annotation inp of
                Some manual \<Rightarrow> manual_events_dict sampling_rate manual
              | None \<Rightarrow> Inr []) = Inr events0
          \<and> res_pulse_times_samples r = Some pulse_times
          \<and> res_pulse_labels r = Some pulse_labels
          \<and> length pulse_labels = length pulse_times"
  then have ev: "events_block inp True r sampling_rate stp
      (last_sample_with_frame ss last_sample_number last_tracked)
      (grid_time ts sampling_rate) nearest = Inl NameError"
    by (simp add: events_block_def segmentation_events_def)
  obtain sng raw where "arrays = (sng, raw)" by (cases arrays)
  with h ev show "assemble pf inp = Inl NameError"
    by (simp add: assemble_def assemble_from_def)
qed

text \<open>The recording of the examples with an automatic segmentation reaches line 175.\<close>

theorem automatic_segmentation_raises_NameError_witness:
  "assemble x86_64 (recording\<lparr>load_segmentation := Some segmented\<rparr>) = Inl NameError"
proof -
  define inp where "inp = recording\<lparr>load_segmentation := Some segmented\<rparr>"
  have seg: "load_segmentation inp = Some segmented" by (simp add: inp_def)
  have 1: "load_times inp = Inr (frames_every_2, 12, 2)" by (simp add: inp_def recording_def)
  have 2: "tracks_block inp frames_every_2 12 = (Some tracked_2_to_6, True, 2, 6)"
    by (simp add: inp_def recording_def tracks_block_def tracked_2_to_6_def)
  have 3: "song_block inp 2 = (True, True, segmented)"
    by (simp add: inp_def recording_def song_block_def raw_song_block_def)
  have 4: "compute_step 2 (target_sampling_rate inp) = Inr 2"
    by (simp add: inp_def recording_def compute_step_def py_int_def)
  have l: "last_sample_with_frame frames_every_2 12 6 = 10"
    by (simp add: last_sample_with_frame_def frames_every_2_def py_int_def)
  have 5: "target_samples 10 2 = Inr [0, 2, 4, 6, 8]" by code_simp
  have 6: "nearest_frame_time x86_64 frames_every_2 2 6 [0, 2, 4, 6, 8]
      = Inr [2 ^ 63, 2 ^ 63, 2, 3, 4]" by code_simp
  have 7: "song_arrays inp True segmented 10 (sampletime 10 2)
      = Inr (Some \<lparr>song_sampletime = sampletime 10 2, song_data = replicate 10 1\<rparr>, None)"
    unfolding inp_def by code_simp
  have 8: "(case load_manual_annotation inp of
              Some manual \<Rightarrow> manual_events_dict 2 manual | None \<Rightarrow> Inr [])
      = Inr [(''pulse'', [2, 5]), (''sine'', [1, 2, 3, 4])]"
    unfolding inp_def by code_simp
  have 9: "res_pulse_times_samples segmented = Some [3, 7]"
    "res_pulse_labels segmented = Some [1, 0]" "length [1, 0 :: int] = length [3, 7 :: int]"
    by (simp_all add: segmented_def)
  from automatic_segmentation_raises_NameError [OF seg, of x86_64, THEN conjunct2, rule_format,
      of frames_every_2 12 2 "Some tracked_2_to_6" True 2 6 True segmented 2 "[0, 2, 4, 6, 8]"
         "[2 ^ 63, 2 ^ 63, 2, 3, 4]" _ "[(''pulse'', [2, 5]), (''sine'', [1, 2, 3, 4])]"
         "[3, 7]" "[1, 0]"]
    1 2 3 4 5 6 7 8 9 l
  show ?thesis unfolding inp_def by simp
qed

text \<open>
  Against C9 as stated: the automatic segmentation is loaded in both runs, and
  \<^verbatim>\<open>assemble\<close> raises before it names \<^verbatim>\<open>song_labels\<close>. In the first the target rate is
  4 Hz for a recording at 2 Hz, and \<^verbatim>\<open>np.arange\<close> raises on the step 0; in the second
  \<^verbatim>\<open>res\<close> has no key \<^verbatim>\<open>'song'\<close>, and line 139 raises KeyError.
\<close>

theorem segmentation_other_exception_counterexample:
  "assemble x86_64 (recording\<lparr>load_segmentation := Some segmented, target_sampling_rate := 4\<rparr>)
     = Inl ZeroDivisionError
   \<and> assemble x86_64 (recording\<lparr>load_segmentation := Some (segmented\<lparr>res_song := None\<rparr>)\<rparr>)
     = Inl KeyError"
  by code_simp

lemma assemble_Inr_blocks:
  assumes "assemble pf inp = Inr ds" "load_times inp = Inr (ss, last_sample_number, sampling_rate)"
  shows "\<exists>trk fixed first_tracked last_tracked with_segmentation with_song r stp ts nearest
           time' nearest'.
           tracks_block inp ss last_sample_number = (trk, fixed, first_tracked, last_tracked)
         \<and> song_block inp sampling_rate = (with_segmentation, with_song, r)
         \<and> compute_step sampling_rate (target_sampling_rate inp) = Inr stp
         \<and> target_samples (last_sample_with_frame ss last_sample_number last_tracked) stp = Inr ts
         \<and> nearest_frame_time pf ss first_tracked last_tracked ts = Inr nearest
         \<and> song_arrays inp with_song r (last_sample_with_frame ss last_sample_number last_tracked)
             (sampletime (last_sample_with_frame ss last_sample_number last_tracked) sampling_rate)
             = Inr (song ds, song_raw ds)
         \<and> events_block inp with_segmentation r sampling_rate stp
             (last_sample_with_frame ss last_sample_number last_tracked)
             (grid_time ts sampling_rate) nearest = Inr (song_events ds)
         \<and> body_block pf inp ss trk ts (grid_time ts sampling_rate) nearest
             = Inr (body_positions ds, time', nearest')
         \<and> pose_block pf inp ss (poses_block inp) first_tracked last_tracked ts time' nearest'
             = Inr (pose_positions ds, pose_positions_allo ds)"
  using assms
  by (auto simp: assemble_def assemble_from_def Let_def split: prod.splits sum.splits)

lemma song_arrays_sampletime:
  assumes "song_arrays inp with_song r last_sample st = Inr (sng, raw)"
  shows "(\<forall>a. sng = Some a \<longrightarrow> song_sampletime a = st)
       \<and> (\<forall>b. raw = Some b \<longrightarrow> raw_sampletime b = st)"
  using assms
  by (auto simp: song_arrays_def song_DataArray_def song_raw_DataArray_def
      split: if_splits option.splits sum.splits)

lemma events_block_coords:
  assumes "events_block inp with_segmentation r sampling_rate stp lswf time nearest = Inr (Some a)"
  shows "ev_time a = time \<and> ev_nearest_frame a = nearest"
  using assms
  by (auto simp: events_block_def events_DataArray_def split: if_splits option.splits sum.splits)

lemma body_block_resampled:
  assumes "body_block pf inp ss trk ts time nearest = Inr (body, time', nearest')"
    "resample_video_data inp"
  shows "time' = time \<and> nearest' = nearest
       \<and> (\<forall>a. body = Some a \<longrightarrow> pos_time a = time \<and> pos_nearest_frame a = nearest
             \<and> (\<exists>t. trk = Some t
                  \<and> resample_positions pf ss (first_tracked_frame t) (last_tracked_frame t)
                       (body_pos t) ts = Inr (pos_data a)))"
  using assms
  by (auto simp: body_block_def positions_DataArray_def split: if_splits option.splits sum.splits)

lemma pose_block_resampled:
  assumes "pose_block pf inp ss pss first_tracked last_tracked ts time nearest = Inr (ego, allo)"
    "resample_video_data inp"
  shows "(\<forall>a. ego = Some a \<longrightarrow> pos_time a = time) \<and> (\<forall>a. allo = Some a \<longrightarrow> pos_time a = time)"
  using assms
  by (auto simp: pose_block_def positions_DataArray_def split: if_splits option.splits sum.splits)

lemma hd_sampletime:
  assumes "sampletime last_sample sampling_rate \<noteq> []"
  shows "hd (sampletime last_sample sampling_rate) = 0"
proof -
  have "0 \<le> last_sample - 1" using assms by (simp add: sampletime_def first_sample_def)
  then have "[0 .. last_sample - 1] = 0 # [1 .. last_sample - 1]"
    by (simp add: upto_rec1)
  then show ?thesis by (simp add: sampletime_def first_sample_def)
qed

lemma hd_grid_time:
  assumes "target_samples last_sample stp = Inr ts" "grid_time ts sampling_rate \<noteq> []"
  shows "hd (grid_time ts sampling_rate) = 0"
proof -
  have ne: "ts \<noteq> []" using assms(2) by (auto simp: grid_time_def)
  then have "ts ! 0 = 0" using target_samples_nth [OF assms(1), of 0] by simp
  then have "hd ts = 0" using ne by (simp add: hd_conv_nth)
  then show ?thesis using ne by (simp add: grid_time_def hd_map)
qed

lemma call_linear_below:
  assumes "x_new < fst (hd tab)"
  shows "list_all (\<lambda>c. c = None) (call_linear tab x_new)"
  using assms by (simp add: call_linear_def list_all_iff)

lemma resample_positions_before_first_frame:
  assumes "resample_positions pf ss first_frame last_frame pos ts = Inr data" "i < length ts"
    "\<forall>f\<in>set (frame_numbers first_frame last_frame). real_of_int (ts ! i) < ss_sample ss f"
  shows "list_all (\<lambda>c. c = None) (data ! i)"
proof -
  define xs where "xs = map (ss_sample ss) (frame_numbers first_frame last_frame)"
  define tab where "tab = sort_key fst (zip xs pos)"
  have ok: "length xs = length pos" "xs \<noteq> []" and data: "data = map (\<lambda>s. call_linear tab (of_int s)) ts"
    using assms(1)
    by (auto simp: resample_positions_def interp1d_def xs_def tab_def split: if_splits)
  have ne: "tab \<noteq> []" using ok by (cases xs; cases pos) (auto simp: tab_def)
  then have "hd tab \<in> set tab" by simp
  then have "hd tab \<in> set (zip xs pos)" by (simp add: tab_def)
  then have "fst (hd tab) \<in> set xs" by (metis in_set_zipE prod.collapse)
  then have "real_of_int (ts ! i) < fst (hd tab)" using assms(3) by (auto simp: xs_def)
  then have "list_all (\<lambda>c. c = None) (call_linear tab (real_of_int (ts ! i)))"
    by (rule call_linear_below)
  then show ?thesis using data assms(2) by simp
qed

text \<open>
  Claim C10, as the code has it by design. \<^verbatim>\<open>first_sample\<close> is 0. In every assembled
  dataset the coordinate \<^verbatim>\<open>sampletime\<close> starts at 0 when it is not empty, and so does
  the coordinate \<^verbatim>\<open>time\<close> of the events, positions and poses when
  \<^verbatim>\<open>resample_video_data\<close> is on. The resampled body positions have one row per grid
  point, whatever the first tracked frame is, and the rows of the grid points before
  the samples of all tracked frames are NaN throughout.
\<close>

theorem canonical_grid_starts_at_sample_zero:
  assumes "assemble pf inp = Inr ds" "load_times inp = Inr (ss, last_sample_number, sampling_rate)"
  shows "first_sample = 0
       \<and> (\<forall>a. song ds = Some a \<and> song_sampletime a \<noteq> [] \<longrightarrow> hd (song_sampletime a) = 0)
       \<and> (\<forall>a. song_raw ds = Some a \<and> raw_sampletime a \<noteq> [] \<longrightarrow> hd (raw_sampletime a) = 0)
       \<and> (\<forall>a. resample_video_data inp \<and> song_events ds = Some a \<and> ev_time a \<noteq> [] \<longrightarrow>
              hd (ev_time a) = 0)
       \<and> (\<forall>a. resample_video_data inp
              \<and> (body_positions ds = Some a \<or> pose_positions ds = Some a
                  \<or> pose_positions_allo ds = Some a)
              \<and> pos_time a \<noteq> [] \<longrightarrow> hd (pos_time a) = 0)
       \<and> (\<forall>a t fixed. resample_video_data inp \<and> body_positions ds = Some a
              \<and> tracks_block inp ss last_sample_number
                  = (Some t, fixed, first_tracked_frame t, last_tracked_frame t) \<longrightarrow>
              (\<exists>stp ts. compute_step sampling_rate (target_sampling_rate inp) = Inr stp
                 \<and> target_samples
                      (last_sample_with_frame ss last_sample_number (last_tracked_frame t)) stp
                      = Inr ts
                 \<and> pos_time a = grid_time ts sampling_rate
                 \<and> length (pos_data a) = length ts
                 \<and> (\<forall>i<length ts.
                       (\<forall>f\<in>set (frame_numbers (first_tracked_frame t) (last_tracked_frame t)).
                           real_of_int (ts ! i) < ss_sample ss f) \<longrightarrow>
                       list_all (\<lambda>c. c = None) (pos_data a ! i))))"
proof -
  from assemble_Inr_blocks [OF assms] obtain trk fixed first_tracked last_tracked
      with_segmentation with_song r stp ts nearest time' nearest'
    where tb: "tracks_block inp ss last_sample_number = (trk, fixed, first_tracked, last_tracked)"
      and st: "compute_step sampling_rate (target_sampling_rate inp) = Inr stp"
      and ts: "target_samples (last_sample_with_frame ss last_sample_number last_tracked) stp
                 = Inr ts"
      and sa: "song_arrays inp with_song r
                 (last_sample_with_frame ss last_sample_number last_tracked)
                 (sampletime (last_sample_with_frame ss last_sample_number last_tracked)
                    sampling_rate) = Inr (song ds, song_raw ds)"
      and eb: "events_block inp with_segmentation r sampling_rate stp
                 (last_sample_with_frame ss last_sample_number last_tracked)
                 (grid_time ts sampling_rate) nearest = Inr (song_events ds)"
      and bb: "body_block pf inp ss trk ts (grid_time ts sampling_rate) nearest
                 = Inr (body_positions ds, time', nearest')"
      and pb: "pose_block pf inp ss (poses_block inp) first_tracked last_tracked ts time' nearest'
                 = Inr (pose_positions ds, pose_positions_allo ds)"
    by blast
  have c1: "first_sample = 0" by (simp add: first_sample_def)
  have c2: "hd (song_sampletime a) = 0" if "song ds = Some a \<and> song_sampletime a \<noteq> []" for a
    using song_arrays_sampletime [OF sa] that hd_sampletime by auto
  have c3: "hd (raw_sampletime a) = 0" if "song_raw ds = Some a \<and> raw_sampletime a \<noteq> []" for a
    using song_arrays_sampletime [OF sa] that hd_sampletime by auto
  have c4: "hd (ev_time a) = 0"
    if "resample_video_data inp \<and> song_events ds = Some a \<and> ev_time a \<noteq> []" for a
  proof -
    have "ev_time a = grid_time ts sampling_rate"
      using events_block_coords [of inp with_segmentation r sampling_rate stp _ _ nearest a]
        eb that by simp
    then show ?thesis using hd_grid_time [OF ts] that by simp
  qed
  have c5: "hd (pos_time a) = 0"
    if h: "resample_video_data inp
         \<and> (body_positions ds = Some a \<or> pose_positions ds = Some a
             \<or> pose_positions_allo ds = Some a)
         \<and> pos_time a \<noteq> []" for a
  proof -
    have r: "resample_video_data inp" using h by simp
    have t': "time' = grid_time ts sampling_rate" using body_block_resampled [OF bb r] by simp
    have "pos_time a = grid_time ts sampling_rate"
      using body_block_resampled [OF bb r] pose_block_resampled [OF pb r] t' h by auto
    then show ?thesis using hd_grid_time [OF ts] h by simp
  qed
  have c6: "\<exists>stp ts. compute_step sampling_rate (target_sampling_rate inp) = Inr stp
        \<and> target_samples (last_sample_with_frame ss last_sample_number (last_tracked_frame t))
             stp = Inr ts
        \<and> pos_time a = grid_time ts sampling_rate
        \<and> length (pos_data a) = length ts
        \<and> (\<forall>i<length ts.
              (\<forall>f\<in>set (frame_numbers (first_tracked_frame t) (last_tracked_frame t)).
                  real_of_int (ts ! i) < ss_sample ss f) \<longrightarrow>
              list_all (\<lambda>c. c = None) (pos_data a ! i))"
    if h: "resample_video_data inp \<and> body_positions ds = Some a
         \<and> tracks_block inp ss last_sample_number
             = (Some t, fixed', first_tracked_frame t, last_tracked_frame t)" for a t fixed'
  proof -
    have r: "resample_video_data inp" using h by simp
    have trk: "trk = Some t" "last_tracked = last_tracked_frame t" using tb h by simp_all
    have pt: "pos_time a = grid_time ts sampling_rate"
      and rp: "resample_positions pf ss (first_tracked_frame t) (last_tracked_frame t)
                 (body_pos t) ts = Inr (pos_data a)"
      using body_block_resampled [OF bb r] h trk by auto
    have len: "length (pos_data a) = length ts" using resample_positions_length [OF rp] .
    have nan: "list_all (\<lambda>c. c = None) (pos_data a ! i)"
      if "i < length ts"
        "\<forall>f\<in>set (frame_numbers (first_tracked_frame t) (last_tracked_frame t)).
            real_of_int (ts ! i) < ss_sample ss f" for i
      using resample_positions_before_first_frame [OF rp that] .
    show ?thesis using st ts trk pt len nan by blast
  qed
  show ?thesis using c1 c2 c3 c4 c5 c6 by blast
qed

text \<open>The dataset assembled from the recording of the examples.\<close>

lemma assemble_recording:
  "assemble x86_64 recording =
     Inr \<lparr>song = Some \<lparr>song_sampletime = [0, 1 / 2, 1, 3 / 2, 2, 5 / 2, 3, 7 / 2, 4, 9 / 2],
                       song_data = [1, 1, 1, 1, 1, 1, 1, 1, 1, 1]\<rparr>,
          song_raw = None,
          song_events = Some \<lparr>ev_time = [0, 1, 2, 3, 4],
                              ev_event_types = [''pulse'', ''sine''],
                              ev_nearest_frame = [2 ^ 63, 2 ^ 63, 2, 3, 4],
                              ev_data = [[False, True], [True, True], [True, True],
                                         [False, False], [False, False]]\<rparr>,
          body_positions = Some \<lparr>pos_time = [0, 1, 2, 3, 4],
                                 pos_nearest_frame = [2 ^ 63, 2 ^ 63, 2, 3, 4],
                                 pos_data = [[None, None], [None, None], [Some 1, Some 5],
                                             [Some 2, Some 6], [Some 3, None]]\<rparr>,
          pose_positions = None, pose_positions_allo = None\<rparr>"
  by code_simp

text \<open>
  In the recording of the examples tracking starts at frame 2 (sample 4): the grid
  still starts at sample 0, and the positions at the grid points 0 and 2 are NaN.
\<close>

theorem canonical_grid_starts_at_sample_zero_witness:
  "\<exists>ds a b. assemble x86_64 recording = Inr ds
     \<and> song ds = Some a \<and> hd (song_sampletime a) = 0
     \<and> body_positions ds = Some b \<and> hd (pos_time b) = 0 \<and> length (pos_data b) = 5
     \<and> pos_data b ! 0 = [None, None] \<and> pos_data b ! 1 = [None, None]"
proof -
  define ds where "ds = (case assemble x86_64 recording of Inr d \<Rightarrow> d)"
  have ds: "assemble x86_64 recording = Inr ds" by (simp add: ds_def assemble_recording)
  have lt: "load_times recording = Inr (frames_every_2, 12, 2)" by (simp add: recording_def)
  obtain a where a: "song ds = Some a" "song_sampletime a \<noteq> []"
    by (simp add: ds_def assemble_recording)
  obtain b where b: "body_positions ds = Some b" "pos_time b \<noteq> []" "length (pos_data b) = 5"
    "pos_data b ! 0 = [None, None]" "pos_data b ! 1 = [None, None]"
    by (simp add: ds_def assemble_recording)
  have r: "resample_video_data recording" by (simp add: recording_def)
  note T = canonical_grid_starts_at_sample_zero [OF ds lt]
  have "hd (song_sampletime a) = 0" using T a by blast
  moreover have "hd (pos_time b) = 0" using T b(1,2) r by blast
  ultimately show ?thesis using ds a b by blast
qed

text \<open>
  Against C10 as stated: with \<^verbatim>\<open>resample_video_data\<close> off the only time coordinate of
  the dataset is that of the frames, and it starts at 2, the time of the first tracked
  frame.
\<close>

theorem time_starts_at_zero_counterexample:
  "assemble x86_64 (recording\<lparr>resample_video_data := False, load_manual_annotation := None\<rparr>) =
     Inr \<lparr>song = Some \<lparr>song_sampletime = [0, 1 / 2, 1, 3 / 2, 2, 5 / 2, 3, 7 / 2, 4, 9 / 2],
                       song_data = [1, 1, 1, 1, 1, 1, 1, 1, 1, 1]\<rparr>,
          song_raw = None,
          song_events = None,
          body_positions = Some \<lparr>pos_time = [2, 3, 4, 5],
                                 pos_nearest_frame = [2, 3, 4, 5],
                                 pos_data = [[Some 1, Some 5], [Some 2, Some 6], [Some 3, None],
                                             [Some 4, Some 8]]\<rparr>,
          pose_positions = None, pose_positions_allo = None\<rparr>"
  by code_simp

text \<open>
  Claim C2 at the recording of the examples. The interpolator returns NaN for the grid
  samples 0 and 2, which lie before the first tracked frame, and does not raise; the cast
  \<^verbatim>\<open>.astype(np.uintp)\<close> then stores the machine's integer for NaN, so the coordinate
  \<^verbatim>\<open>nearest_frame\<close> of the dataset holds \<open>2^63\<close> there and no missing value.
\<close>

theorem nan_cast_into_nearest_frame:
  "nearest_frame_float x86_64 frames_every_2 2 6 [0, 2, 4, 6, 8]
     = Inr [None, None, Some 2, Some 3, Some 4]
   \<and> nearest_frame_time \<lparr>nan_as_uintp = nan, interp1d_minval = 2\<rparr> frames_every_2 2 6
        [0, 2, 4, 6, 8] = Inr [nan, nan, 2, 3, 4]
   \<and> map_sum id (\<lambda>ds. map_option pos_nearest_frame (body_positions ds))
        (assemble x86_64 recording) = Inr (Some [2 ^ 63, 2 ^ 63, 2, 3, 4])"
proof (intro conjI)
  show "nearest_frame_float x86_64 frames_every_2 2 6 [0, 2, 4, 6, 8]
     = Inr [None, None, Some 2, Some 3, Some 4]"
    by code_simp
  show "nearest_frame_time \<lparr>nan_as_uintp = nan, interp1d_minval = 2\<rparr> frames_every_2 2 6
        [0, 2, 4, 6, 8] = Inr [nan, nan, 2, 3, 4]"
    by (simp add: nearest_frame_time_def nearest_frame_float_def interp1d_def frame_numbers_def
          frames_every_2_def upto.simps call_nearest_def x_bds_def nan_astype_uintp_def
          astype_uintp_def py_int_def)
  show "map_sum id (\<lambda>ds. map_option pos_nearest_frame (body_positions ds))
        (assemble x86_64 recording) = Inr (Some [2 ^ 63, 2 ^ 63, 2, 3, 4])"
    by (simp add: assemble_recording)
qed

text \<open>
  Claim C7 at the recording of the examples. The timing model is strictly increasing,
  and the coordinate \<^verbatim>\<open>nearest_frame\<close> of \<^verbatim>\<open>song_events\<close> falls from \<open>2^63\<close> to 2
  where the grid enters the recorded span.
\<close>

theorem nearest_frame_decreases:
  "strict_mono (ss_sample frames_every_2)
   \<and> map_sum id (\<lambda>ds. map_option ev_nearest_frame (song_events ds))
        (assemble x86_64 recording) = Inr (Some [2 ^ 63, 2 ^ 63, 2, 3, 4])
   \<and> \<not> sorted [2 ^ 63, 2 ^ 63, 2, 3, 4 :: int]"
  by (simp add: assemble_recording strict_mono_def frames_every_2_def)

section \<open>The nearest frame inside and outside the recorded span\<close>

lemma call_nearest_outside:
  assumes "x_new < fst (hd tab) \<or> fst (last tab) < x_new"
  shows "call_nearest tab x_new = None"
  using assms by (auto simp: call_nearest_def)

text \<open>
  Outside the recorded span the interpolator returns NaN without raising, and the
  coordinate holds the cast of NaN.
\<close>

lemma nearest_frame_outside_span:
  assumes "nearest_frame_time pf ss first_tracked last_tracked ts = Inr nearest" "i < length ts"
    "(\<forall>f\<in>set (frame_numbers first_tracked last_tracked). real_of_int (ts ! i) < ss_sample ss f)
     \<or> (\<forall>f\<in>set (frame_numbers first_tracked last_tracked). ss_sample ss f < real_of_int (ts ! i))"
  shows "\<exists>floats. nearest_frame_float pf ss first_tracked last_tracked ts = Inr floats
           \<and> floats ! i = None \<and> nearest ! i = nan_as_uintp pf"
proof -
  define xs where "xs = map (ss_sample ss) (frame_numbers first_tracked last_tracked)"
  define ys where "ys = map real_of_int (frame_numbers first_tracked last_tracked)"
  define tab where "tab = sort_key fst (zip xs ys)"
  have ok: "xs \<noteq> []"
    and fl: "nearest_frame_float pf ss first_tracked last_tracked ts
               = Inr (map (\<lambda>s. call_nearest tab (of_int s)) ts)"
    and nr: "nearest = map (nan_astype_uintp (nan_as_uintp pf))
               (map (\<lambda>s. call_nearest tab (of_int s)) ts)"
    using assms(1)
    by (auto simp: nearest_frame_time_def nearest_frame_float_def interp1d_def xs_def ys_def
        tab_def split: if_splits sum.splits)
  have len: "length xs = length ys" by (simp add: xs_def ys_def)
  have ne: "tab \<noteq> []" using ok len by (cases xs; cases ys) (auto simp: tab_def)
  have "hd tab \<in> set (zip xs ys)" "last tab \<in> set (zip xs ys)"
    using ne hd_in_set [OF ne] last_in_set [OF ne] by (simp_all add: tab_def)
  then have "fst (hd tab) \<in> set xs" "fst (last tab) \<in> set xs"
    by (metis in_set_zipE prod.collapse)+
  then have "real_of_int (ts ! i) < fst (hd tab) \<or> fst (last tab) < real_of_int (ts ! i)"
    using assms(3) by (auto simp: xs_def)
  then have "call_nearest tab (real_of_int (ts ! i)) = None"
    by (rule call_nearest_outside)
  then show ?thesis
    using fl nr assms(2) by (simp add: nan_astype_uintp_def)
qed

lemma filter_less_mono:
  fixes x y :: real
  assumes "x \<le> y"
  shows "length (filter (\<lambda>b. b < x) bs) \<le> length (filter (\<lambda>b. b < y) bs)"
  using assms by (induction bs) auto

lemma astype_uintp_of_int:
  assumes "0 \<le> f" "f < 2 ^ 64"
  shows "astype_uintp (real_of_int f) = f"
  using assms by (simp add: astype_uintp_def py_int_def)

text \<open>
  Inside the recorded span the coordinate is non-decreasing along the grid, for every
  timing model that is monotone on the tracked frames.
\<close>

lemma nearest_frame_sorted_in_span:
  assumes nf: "nearest_frame_time pf ss first_tracked last_tracked ts = Inr nearest"
    and mono: "sorted (map (ss_sample ss) (frame_numbers first_tracked last_tracked))"
    and grid: "sorted ts"
    and range: "0 \<le> first_tracked" "last_tracked \<le> 2 ^ 64"
    and ij: "i \<le> j" "j < length ts"
    and span: "ss_sample ss first_tracked \<le> real_of_int (ts ! i)"
      "real_of_int (ts ! j) \<le> ss_sample ss (last_tracked - 1)"
  shows "nearest ! i \<le> nearest ! j"
proof -
  define frames where "frames = frame_numbers first_tracked last_tracked"
  define xs where "xs = map (ss_sample ss) frames"
  define ys where "ys = map real_of_int frames"
  define tab where "tab = zip xs ys"
  define k where "k = (\<lambda>x. min (length (filter (\<lambda>b. b < x) (x_bds (map fst tab))))
                             (length tab - 1))"
  have len: "length xs = length ys" by (simp add: xs_def ys_def)
  have "sorted (map fst (zip xs ys))" using mono len by (simp add: xs_def frames_def)
  then have srt: "sort_key fst (zip xs ys) = tab"
    by (simp add: sort_key_id_if_sorted tab_def)
  have ok: "frames \<noteq> []"
    and nr: "nearest = map (nan_astype_uintp (nan_as_uintp pf))
               (map (\<lambda>s. call_nearest tab (of_int s)) ts)"
    using nf srt
    by (auto simp: nearest_frame_time_def nearest_frame_float_def interp1d_def xs_def ys_def
        frames_def split: if_splits sum.splits)
  have lt: "first_tracked \<le> last_tracked - 1" using ok by (simp add: frames_def frame_numbers_def)
  have flen: "length frames = nat (last_tracked - first_tracked)"
    using lt by (simp add: frames_def frame_numbers_def)
  have tlen: "length tab = length frames" by (simp add: tab_def xs_def ys_def)
  have ne: "tab \<noteq> []" using ok tlen by auto
  have hd: "fst (hd tab) = ss_sample ss first_tracked"
    using ok lt by (simp add: tab_def xs_def ys_def frames_def frame_numbers_def hd_zip hd_map
        upto_rec1)
  have "last frames = last_tracked - 1"
    using lt by (simp add: frames_def frame_numbers_def upto_rec2)
  then have last: "fst (last tab) = ss_sample ss (last_tracked - 1)"
    using ok by (simp add: tab_def xs_def ys_def last_zip last_map)
  have val: "snd (tab ! n) = real_of_int (first_tracked + int n)" if "n < length tab" for n
    using that tlen flen by (simp add: tab_def xs_def ys_def frames_def frame_numbers_def)
  have kb: "k x < length tab" for x
  proof -
    have "0 < length tab" using ne by simp
    then have "length tab - 1 < length tab" by simp
    then show ?thesis unfolding k_def by (rule min.strict_coboundedI2)
  qed
  have tij: "ts ! i \<le> ts ! j" using grid ij by (simp add: sorted_nth_mono)
  have cell: "nearest ! n = first_tracked + int (k (real_of_int (ts ! n)))"
    if n: "n < length ts" "ss_sample ss first_tracked \<le> real_of_int (ts ! n)"
      "real_of_int (ts ! n) \<le> ss_sample ss (last_tracked - 1)" for n
  proof -
    define f where "f = first_tracked + int (k (real_of_int (ts ! n)))"
    have c: "call_nearest tab (real_of_int (ts ! n)) = Some (real_of_int f)"
      unfolding f_def using n(2,3) hd last val [OF kb] by (simp add: call_nearest_def k_def)
    have "f < 2 ^ 64"
      unfolding f_def using kb [of "real_of_int (ts ! n)"] tlen flen range(2) lt by linarith
    moreover have "0 \<le> f" unfolding f_def using range(1) by simp
    ultimately have a: "astype_uintp (real_of_int f) = f" by (rule astype_uintp_of_int [rotated])
    have "nearest ! n = nan_astype_uintp (nan_as_uintp pf) (call_nearest tab (real_of_int (ts ! n)))"
      using nr n(1) by simp
    also have "\<dots> = astype_uintp (real_of_int f)"
      by (simp only: c nan_astype_uintp_def option.case)
    finally show ?thesis using a by (simp only: f_def)
  qed
  have "real_of_int (ts ! i) \<le> real_of_int (ts ! j)" using tij by simp
  then have kk: "k (real_of_int (ts ! i)) \<le> k (real_of_int (ts ! j))"
    unfolding k_def using filter_less_mono min.mono by blast
  have ci: "nearest ! i = first_tracked + int (k (real_of_int (ts ! i)))"
    using cell [of i] ij span tij by simp
  have cj: "nearest ! j = first_tracked + int (k (real_of_int (ts ! j)))"
    using cell [of j] ij span tij by simp
  show ?thesis using ci cj kk by simp
qed

end
